theory Spec2Isabelle
  imports Complex_Main "HOL-Library.Multiset"
begin

section \<open>Data model (src/carbon\_pulse/models.py)\<close>

text \<open>
  Timestamps (Python \<open>datetime\<close>) are integers: the microseconds from 1970-01-01
  00:00:00 to the reading of the datetime's own clock. Time zones are not part of the
  model. Python floats are modelled as real numbers, so arithmetic is exact.
\<close>

type_synonym datetime = int

text \<open>
  \<open>datetime.min\<close> is 0001-01-01 00:00:00 and \<open>datetime.max\<close> is
  9999-12-31 23:59:59.999999. \<open>dt + timedelta\<close> raises \<open>OverflowError\<close> when the sum
  leaves that range; \<open>None\<close> stands for the exception.
\<close>

definition datetime_min :: datetime where
  "datetime_min = - 62135596800000000"

definition datetime_max :: datetime where
  "datetime_max = 253402300799999999"

definition datetime_add :: "datetime \<Rightarrow> int \<Rightarrow> datetime option" where
  "datetime_add dt delta =
     (if datetime_min \<le> dt + delta \<and> dt + delta \<le> datetime_max then Some (dt + delta)
      else None)"

definition timedelta_hours :: "int \<Rightarrow> int" where
  "timedelta_hours h = h * 3600000000"

definition timedelta_minutes :: "int \<Rightarrow> int" where
  "timedelta_minutes m = m * 60000000"

text \<open>
  \<open>class CarbonIntensityData(BaseModel)\<close>: three required fields (\<open>Field(...)\<close>) and
  thirteen optional ones (\<open>Optional[float] = Field(None, ...)\<close>).
\<close>

record CarbonIntensityData =
  zone :: string
  timestamp :: datetime
  carbon_intensity :: real
  fossil_fuel_percentage :: "real option"
  renewable_percentage :: "real option"
  nuclear_percentage :: "real option"
  hydro_percentage :: "real option"
  wind_percentage :: "real option"
  solar_percentage :: "real option"
  biomass_percentage :: "real option"
  coal_percentage :: "real option"
  gas_percentage :: "real option"
  oil_percentage :: "real option"
  unknown_percentage :: "real option"
  total_production :: "real option"
  total_consumption :: "real option"

text \<open>\<open>class ZoneInfo(BaseModel)\<close>: all six fields are required.\<close>

record ZoneInfo =
  zi_zone :: string
  zi_name :: string
  zi_country :: string
  zi_latitude :: real
  zi_longitude :: real
  zi_timezone :: string

text \<open>
  The errors of the system: the taxonomy of spec section 7, and the Python exceptions that
  the datetime parser, the data model and datetime arithmetic raise.
\<close>

datatype error =
    InvalidArgument
  | InvalidZone
  | RemoteUnavailable
  | StorageFailure
  | NotFound
  | ValueError
  | ValidationError
  | OverflowError

text \<open>
  The constructor call \<open>CarbonIntensityData(zone=..., timestamp=..., carbon_intensity=...,
  **optional)\<close>. A required field (\<open>Field(...)\<close>) that is not supplied is a pydantic
  validation error. The optional fields are supplied by name; one that is not supplied
  takes its declared default \<open>Field(None, ...)\<close>, which is \<open>None\<close> for all thirteen.
\<close>

definition CarbonIntensityData_init ::
    "string option \<Rightarrow> datetime option \<Rightarrow> real option \<Rightarrow> (string \<rightharpoonup> real)
       \<Rightarrow> error + CarbonIntensityData" where
  "CarbonIntensityData_init z t c kw =
     (case (z, t, c) of
        (Some z', Some t', Some c') \<Rightarrow>
          Inr \<lparr> zone = z', timestamp = t', carbon_intensity = c',
                fossil_fuel_percentage = kw ''fossil_fuel_percentage'',
                renewable_percentage = kw ''renewable_percentage'',
                nuclear_percentage = kw ''nuclear_percentage'',
                hydro_percentage = kw ''hydro_percentage'',
                wind_percentage = kw ''wind_percentage'',
                solar_percentage = kw ''solar_percentage'',
                biomass_percentage = kw ''biomass_percentage'',
                coal_percentage = kw ''coal_percentage'',
                gas_percentage = kw ''gas_percentage'',
                oil_percentage = kw ''oil_percentage'',
                unknown_percentage = kw ''unknown_percentage'',
                total_production = kw ''total_production'',
                total_consumption = kw ''total_consumption'' \<rparr>
      | _ \<Rightarrow> Inl ValidationError)"

text \<open>
  \<open>class APIResponse(BaseModel)\<close>. The \<open>data\<close> dictionary is one of the five
  shapes the endpoints build; \<open>timestamp\<close> defaults to \<open>datetime.utcnow()\<close>.
\<close>

datatype payload =
    CarbonIntensityPayload CarbonIntensityData
  | HistoryPayload "CarbonIntensityData list"
  | AveragePayload string real int
  | ZonesPayload "ZoneInfo list"
  | HealthPayload string nat

record APIResponse =
  success :: bool
  data :: "payload option"
  message :: "string option"
  response_timestamp :: datetime

section \<open>Time-series store\<close>

text \<open>
  Modelled from the spec: the state of \<open>DatabaseManager\<close>
  (\<open>carbon_pulse/data/database.py\<close>, which the API, the ingestion job and the tests
  import), spec sections 3 and 4.2: the rows of its two tables, zones and carbon-intensity
  observations, kept in the order they were written.
\<close>

record store =
  zone_rows :: "ZoneInfo list"
  intensity_rows :: "CarbonIntensityData list"

definition empty_store :: store where
  "empty_store = \<lparr> zone_rows = [], intensity_rows = [] \<rparr>"

definition same_key :: "CarbonIntensityData \<Rightarrow> CarbonIntensityData \<Rightarrow> bool" where
  "same_key a b = (zone a = zone b \<and> timestamp a = timestamp b)"

text \<open>
  Modelled from the spec: \<open>DatabaseManager.insert_carbon_intensity\<close>, spec section 4.2
  \<open>upsertObservation(CarbonIntensityObservation) -> success|failure\<close>: insert or replace
  keyed by (zone, timestamp). The boolean is the reported success.
\<close>

definition upsertObservation :: "CarbonIntensityData \<Rightarrow> store \<Rightarrow> bool \<times> store" where
  "upsertObservation ob s =
     (True, s\<lparr> intensity_rows := filter (\<lambda>r. \<not> same_key r ob) (intensity_rows s) @ [ob] \<rparr>)"

text \<open>
  Modelled from the spec: \<open>DatabaseManager.get_zones\<close>, spec section 4.2
  \<open>listZones() -> sequence<ZoneInfo>\<close>: the stored zones.
\<close>

definition listZones :: "store \<Rightarrow> ZoneInfo list" where
  "listZones s = zone_rows s"

text \<open>
  The spec leaves the end of a range query open (\<open>start \<le> timestamp < end\<close>, or
  \<open>\<le> end\<close>): the flag \<open>incl\<close> selects the inclusive end, and every statement
  below holds for both choices.
\<close>

definition in_window :: "bool \<Rightarrow> datetime \<Rightarrow> datetime \<Rightarrow> datetime \<Rightarrow> bool" where
  "in_window incl start_t end_t t = (start_t \<le> t \<and> (if incl then t \<le> end_t else t < end_t))"

text \<open>
  Modelled from the spec: \<open>DatabaseManager.get_carbon_intensity_history\<close>, spec section 4.2
  \<open>getRange(zone, start, end)\<close>: all observations of the zone in the window, ordered
  ascending by timestamp.
\<close>

definition getRange ::
    "bool \<Rightarrow> store \<Rightarrow> string \<Rightarrow> datetime \<Rightarrow> datetime \<Rightarrow> CarbonIntensityData list" where
  "getRange incl s z start_t end_t =
     sort_key timestamp
       (filter (\<lambda>r. zone r = z \<and> in_window incl start_t end_t (timestamp r)) (intensity_rows s))"

text \<open>
  Modelled from the spec: \<open>DatabaseManager.get_latest_carbon_intensity\<close>, spec section 4.2
  \<open>getLatest(zone)\<close>: the observation with maximal timestamp for the zone, or absent if
  none exist.
\<close>

definition getLatest :: "store \<Rightarrow> string \<Rightarrow> CarbonIntensityData option" where
  "getLatest s z =
     (case rev (sort_key timestamp (filter (\<lambda>r. zone r = z) (intensity_rows s))) of
        [] \<Rightarrow> None
      | r # _ \<Rightarrow> Some r)"

text \<open>
  Modelled from the spec: \<open>DatabaseManager.get_average_carbon_intensity\<close>, spec section 4.2
  \<open>getAverage(zone, windowHours) -> optional<float>\<close>: arithmetic mean of
  carbon\_intensity over observations with timestamp \<open>\<ge> now - windowHours\<close> and
  \<open>\<le> now\<close>; absent when zero observations match.
\<close>

definition average_window ::
    "store \<Rightarrow> datetime \<Rightarrow> string \<Rightarrow> int \<Rightarrow> CarbonIntensityData list" where
  "average_window s now z hours =
     filter (\<lambda>r. zone r = z \<and> now - timedelta_hours hours \<le> timestamp r \<and> timestamp r \<le> now)
       (intensity_rows s)"

definition getAverage :: "store \<Rightarrow> datetime \<Rightarrow> string \<Rightarrow> int \<Rightarrow> real option" where
  "getAverage s now z hours =
     (let rows = average_window s now z hours
      in if rows = [] then None
         else Some (sum_list (map carbon_intensity rows) / real (length rows)))"

text \<open>
  The loop of the tests and of the ingestion job:
  \<open>for data in data_points: db.insert_carbon_intensity(data)\<close>.
\<close>

fun insert_all :: "CarbonIntensityData list \<Rightarrow> store \<Rightarrow> store" where
  "insert_all [] s = s"
| "insert_all (ob # obs) s = insert_all obs (snd (upsertObservation ob s))"

definition rows_with_key :: "store \<Rightarrow> CarbonIntensityData \<Rightarrow> CarbonIntensityData list" where
  "rows_with_key s ob = filter (\<lambda>r. same_key r ob) (intensity_rows s)"

definition key :: "CarbonIntensityData \<Rightarrow> string \<times> datetime" where
  "key r = (zone r, timestamp r)"

definition distinct_keys :: "store \<Rightarrow> bool" where
  "distinct_keys s = distinct (map key (intensity_rows s))"

section \<open>Remote data client\<close>

text \<open>
  Modelled from the spec: what \<open>ElectricityMapsClient\<close>
  (\<open>carbon_pulse/data/electricity_maps.py\<close>, which the API, the ingestion job, the
  scripts and the tests import) receives from the provider, spec section 6. The answer to
  one request is a status with a JSON body, or a transport failure. The body of a
  carbon-intensity answer has the field \<open>datetime\<close> and numeric fields in camelCase; a
  field may be absent.
\<close>

record provider_body =
  pb_datetime :: "string option"
  pb_number :: "string \<rightharpoonup> real"

datatype provider_reply = Reply nat provider_body | NetworkError

definition wire_names :: "(string \<times> string) list" where
  "wire_names =
     [(''fossil_fuel_percentage'', ''fossilFuelPercentage''),
      (''renewable_percentage'', ''renewablePercentage''),
      (''nuclear_percentage'', ''nuclearPercentage''),
      (''hydro_percentage'', ''hydroPercentage''),
      (''wind_percentage'', ''windPercentage''),
      (''solar_percentage'', ''solarPercentage''),
      (''biomass_percentage'', ''biomassPercentage''),
      (''coal_percentage'', ''coalPercentage''),
      (''gas_percentage'', ''gasPercentage''),
      (''oil_percentage'', ''oilPercentage''),
      (''unknown_percentage'', ''unknownPercentage''),
      (''total_production'', ''totalProduction''),
      (''total_consumption'', ''totalConsumption'')]"

text \<open>
  Modelled from the spec: the normalisation of a provider answer into the canonical record
  (\<open>ElectricityMapsClient\<close>, spec sections 4.1, 6 and 9): each optional metric is the
  provider's field of the camelCase name when present and stays absent otherwise; the zone
  is the requested one; the timestamp is the parsed \<open>datetime\<close> field. \<open>parse\<close> is the
  parser of ISO-8601 UTC strings (\<open>None\<close> when the string cannot be parsed).
\<close>

definition normalize_intensity ::
    "(string \<Rightarrow> datetime option) \<Rightarrow> string \<Rightarrow> provider_body \<Rightarrow> error + CarbonIntensityData" where
  "normalize_intensity parse z body =
     (case pb_datetime body of
        None \<Rightarrow> Inl ValidationError
      | Some d \<Rightarrow>
          (case parse d of
             None \<Rightarrow> Inl ValueError
           | Some t \<Rightarrow>
               CarbonIntensityData_init (Some z) (Some t) (pb_number body ''carbonIntensity'')
                 (\<lambda>f. case map_of wire_names f of None \<Rightarrow> None | Some w \<Rightarrow> pb_number body w)))"

text \<open>
  Modelled from the spec: \<open>ElectricityMapsClient.get_carbon_intensity\<close>, spec section 4.1
  \<open>getIntensity(zone, optional instant)\<close>: fails with \<open>InvalidArgument\<close> when the instant
  cannot be parsed, with \<open>InvalidZone\<close> when the provider returns 404, with
  \<open>RemoteUnavailable\<close> for 5xx and network errors (and, as for \<open>listZones\<close>, for any other
  status that is not 2xx). \<open>provider z instant\<close> is the provider's answer to the request.
\<close>

definition client_getIntensity ::
    "(string \<Rightarrow> datetime option) \<Rightarrow> (string \<Rightarrow> string option \<Rightarrow> provider_reply)
       \<Rightarrow> string \<Rightarrow> string option \<Rightarrow> error + CarbonIntensityData" where
  "client_getIntensity parse provider z instant =
     (if (case instant of None \<Rightarrow> False | Some i \<Rightarrow> parse i = None) then Inl InvalidArgument
      else
        (case provider z instant of
           NetworkError \<Rightarrow> Inl RemoteUnavailable
         | Reply status body \<Rightarrow>
             if status = 404 then Inl InvalidZone
             else if status < 200 \<or> 300 \<le> status then Inl RemoteUnavailable
             else normalize_intensity parse z body))"

section \<open>Query API (src/carbon\_pulse/api/main.py)\<close>

text \<open>
  The endpoints that use the database or the client: the health check, the zones, and for
  a zone the intensity, its history and its average. A step of a request acts on the
  world outside the endpoint (the database, the provider) and returns a value or raises.
  An exception leaves the effects made before it in place. Logging and the Prometheus
  counters are left out.
\<close>

type_synonym ('w, 'a) io = "'w \<Rightarrow> (error + 'a) \<times> 'w"

definition io_return :: "'a \<Rightarrow> ('w, 'a) io" where
  "io_return x w = (Inr x, w)"

definition io_raise :: "error \<Rightarrow> ('w, 'a) io" where
  "io_raise e w = (Inl e, w)"

definition io_bind :: "('w, 'a) io \<Rightarrow> ('a \<Rightarrow> ('w, 'b) io) \<Rightarrow> ('w, 'b) io" where
  "io_bind m f w = (case m w of (Inl e, w') \<Rightarrow> (Inl e, w') | (Inr x, w') \<Rightarrow> f x w')"

text \<open>
  What \<open>main.py\<close> imports and calls: the methods of \<open>DatabaseManager\<close> and of the
  module's \<open>electricity_maps_client\<close>, \<open>datetime.fromisoformat\<close> (\<open>None\<close> stands for its
  \<open>ValueError\<close>) and \<open>datetime.utcnow\<close>. Each method may raise. Opening and closing
  the connection (the \<open>with\<close> block) are not separate steps: a connection that cannot
  be opened shows as the failure of a database call.
\<close>

record 'w deps =
  db_get_zones :: "('w, ZoneInfo list) io"
  db_get_carbon_intensity_history ::
    "string \<Rightarrow> datetime \<Rightarrow> datetime \<Rightarrow> ('w, CarbonIntensityData list) io"
  db_get_latest_carbon_intensity :: "string \<Rightarrow> ('w, CarbonIntensityData option) io"
  db_insert_carbon_intensity :: "CarbonIntensityData \<Rightarrow> ('w, bool) io"
  db_get_average_carbon_intensity :: "string \<Rightarrow> int \<Rightarrow> ('w, real option) io"
  client_get_carbon_intensity :: "string \<Rightarrow> string option \<Rightarrow> ('w, CarbonIntensityData) io"
  fromisoformat :: "string \<Rightarrow> datetime option"
  utcnow :: "'w \<Rightarrow> datetime"

text \<open>\<open>raise HTTPException(status_code=..., detail=...)\<close>.\<close>

datatype HTTPException = HTTPException (status_code: nat) (detail: string)

text \<open>\<open>s.replace("Z", "+00:00")\<close>: every occurrence of the character is replaced.\<close>

definition replace_Z :: "string \<Rightarrow> string" where
  "replace_Z s = concat (map (\<lambda>c. if c = CHR ''Z'' then ''+00:00'' else [c]) s)"

text \<open>Decimal rendering of an integer inside an f-string.\<close>

definition digit_char :: "nat \<Rightarrow> char" where
  "digit_char n = char_of (48 + n)"

function str_nat :: "nat \<Rightarrow> string" where
  "str_nat n = (if n < 10 then [digit_char n] else str_nat (n div 10) @ [digit_char (n mod 10)])"
  by pat_completeness auto
termination
  by (relation "measure id") auto

declare str_nat.simps [simp del]

definition str_int :: "int \<Rightarrow> string" where
  "str_int i = (if i < 0 then CHR ''-'' # str_nat (nat (- i)) else str_nat (nat i))"

text \<open>
  \<open>health_check\<close> (lines 62 to 75): the zones are read to test the connection; any
  exception becomes the 503.
\<close>

definition health_response :: "nat \<Rightarrow> datetime \<Rightarrow> APIResponse" where
  "health_response n t =
     \<lparr> success = True, data = Some (HealthPayload ''connected'' n),
       message = Some ''Service is healthy'', response_timestamp = t \<rparr>"

definition health_check :: "'w deps \<Rightarrow> 'w \<Rightarrow> (HTTPException + APIResponse) \<times> 'w" where
  "health_check d w =
     (case db_get_zones d w of
        (Inr zones, w') \<Rightarrow> (Inr (health_response (length zones) (utcnow d w')), w')
      | (Inl e, w') \<Rightarrow> (Inl (HTTPException 503 ''Service unhealthy''), w'))"

text \<open>\<open>get_zones\<close> (lines 84 to 96): any exception becomes the 500.\<close>

definition zones_response :: "ZoneInfo list \<Rightarrow> datetime \<Rightarrow> APIResponse" where
  "zones_response zones t =
     \<lparr> success = True, data = Some (ZonesPayload zones),
       message = Some (''Retrieved '' @ str_nat (length zones) @ '' zones''),
       response_timestamp = t \<rparr>"

definition get_zones :: "'w deps \<Rightarrow> 'w \<Rightarrow> (HTTPException + APIResponse) \<times> 'w" where
  "get_zones d w =
     (case db_get_zones d w of
        (Inr zones, w') \<Rightarrow> (Inr (zones_response zones (utcnow d w')), w')
      | (Inl e, w') \<Rightarrow> (Inl (HTTPException 500 ''Failed to retrieve zones''), w'))"

text \<open>
  The envelope \<open>APIResponse(success=True, data=..., message=...)\<close> that
  \<open>get_carbon_intensity\<close> returns for the record \<open>x\<close> of zone \<open>z\<close> at
  the time \<open>t\<close>.
\<close>

definition intensity_response :: "string \<Rightarrow> CarbonIntensityData \<Rightarrow> datetime \<Rightarrow> APIResponse" where
  "intensity_response z x t =
     \<lparr> success = True, data = Some (CarbonIntensityPayload x),
       message = Some (''Carbon intensity data for '' @ z), response_timestamp = t \<rparr>"

text \<open>The envelope \<open>get_carbon_intensity_history\<close> returns for the records \<open>xs\<close>.\<close>

definition history_response :: "string \<Rightarrow> CarbonIntensityData list \<Rightarrow> datetime \<Rightarrow> APIResponse" where
  "history_response z xs t =
     \<lparr> success = True, data = Some (HistoryPayload xs),
       message = Some (''Carbon intensity history for '' @ z), response_timestamp = t \<rparr>"

text \<open>The envelope \<open>get_average_carbon_intensity\<close> returns for the average \<open>a\<close>.\<close>

definition average_response :: "string \<Rightarrow> real \<Rightarrow> int \<Rightarrow> datetime \<Rightarrow> APIResponse" where
  "average_response z a hours t =
     \<lparr> success = True, data = Some (AveragePayload z a hours),
       message = Some (''Average carbon intensity for '' @ z @ '' over ''
                         @ str_int hours @ '' hours''),
       response_timestamp = t \<rparr>"

text \<open>
  \<open>get_carbon_intensity\<close>, the body of the \<open>try\<close> block (lines 110 to 130):
  a query string that is \<open>None\<close> or empty is falsy and takes the \<open>else\<close> branch;
  \<open>dt + timedelta(hours=1)\<close> raises when the hour after \<open>dt\<close> is out of range.
\<close>

definition carbon_intensity_lookup ::
    "'w deps \<Rightarrow> string \<Rightarrow> string option \<Rightarrow> ('w, CarbonIntensityData) io" where
  "carbon_intensity_lookup d z datetime_str =
     (case datetime_str of
        Some (c # cs) \<Rightarrow>
          (case fromisoformat d (replace_Z (c # cs)) of
             None \<Rightarrow> io_raise ValueError
           | Some dt \<Rightarrow>
               (case datetime_add dt (timedelta_hours 1) of
                  None \<Rightarrow> io_raise OverflowError
                | Some end_dt \<Rightarrow>
                    io_bind (db_get_carbon_intensity_history d z dt end_dt)
                      (\<lambda>history.
                         case history of
                           h # _ \<Rightarrow> io_return h
                         | [] \<Rightarrow>
                             io_bind (client_get_carbon_intensity d z datetime_str)
                               (\<lambda>fetched. io_bind (db_insert_carbon_intensity d fetched)
                                  (\<lambda>_. io_return fetched)))))
      | _ \<Rightarrow>
          io_bind (db_get_latest_carbon_intensity d z)
            (\<lambda>latest.
               case latest of
                 Some x \<Rightarrow> io_return x
               | None \<Rightarrow>
                   io_bind (client_get_carbon_intensity d z None)
                     (\<lambda>fetched. io_bind (db_insert_carbon_intensity d fetched)
                        (\<lambda>_. io_return fetched))))"

text \<open>\<open>get_carbon_intensity\<close> with its handler \<open>except Exception\<close> (lines 140 to 145).\<close>

definition get_carbon_intensity ::
    "'w deps \<Rightarrow> string \<Rightarrow> string option \<Rightarrow> 'w \<Rightarrow> (HTTPException + APIResponse) \<times> 'w" where
  "get_carbon_intensity d z datetime_str w =
     (case carbon_intensity_lookup d z datetime_str w of
        (Inr x, w') \<Rightarrow>
          (Inr (intensity_response z x (utcnow d w')), w')
      | (Inl e, w') \<Rightarrow>
          (Inl (HTTPException 500 (''Failed to retrieve carbon intensity for '' @ z)), w'))"

text \<open>
  \<open>get_carbon_intensity_history\<close> (lines 162 to 181): both dates are parsed before the
  database is used.
\<close>

definition history_lookup ::
    "'w deps \<Rightarrow> string \<Rightarrow> string \<Rightarrow> string \<Rightarrow> ('w, CarbonIntensityData list) io" where
  "history_lookup d z start_date end_date =
     (case fromisoformat d (replace_Z start_date) of
        None \<Rightarrow> io_raise ValueError
      | Some start_dt \<Rightarrow>
          (case fromisoformat d (replace_Z end_date) of
             None \<Rightarrow> io_raise ValueError
           | Some end_dt \<Rightarrow> db_get_carbon_intensity_history d z start_dt end_dt))"

definition get_carbon_intensity_history ::
    "'w deps \<Rightarrow> string \<Rightarrow> string \<Rightarrow> string \<Rightarrow> 'w \<Rightarrow> (HTTPException + APIResponse) \<times> 'w" where
  "get_carbon_intensity_history d z start_date end_date w =
     (case history_lookup d z start_date end_date w of
        (Inr history, w') \<Rightarrow>
          (Inr (history_response z history (utcnow d w')), w')
      | (Inl e, w') \<Rightarrow>
          (Inl (HTTPException 500 (''Failed to retrieve history for '' @ z)), w'))"

text \<open>
  \<open>get_average_carbon_intensity\<close> (lines 196 to 226): the 404 raised inside the \<open>try\<close>
  block passes the handler \<open>except HTTPException: raise\<close> unchanged; any other exception
  becomes the 500.
\<close>

definition get_average_carbon_intensity ::
    "'w deps \<Rightarrow> string \<Rightarrow> int \<Rightarrow> 'w \<Rightarrow> (HTTPException + APIResponse) \<times> 'w" where
  "get_average_carbon_intensity d z hours w =
     (case db_get_average_carbon_intensity d z hours w of
        (Inr None, w') \<Rightarrow> (Inl (HTTPException 404 (''No data available for '' @ z)), w')
      | (Inr (Some avg_intensity), w') \<Rightarrow>
          (Inr (average_response z avg_intensity hours (utcnow d w')), w')
      | (Inl e, w') \<Rightarrow>
          (Inl (HTTPException 500 (''Failed to calculate average for '' @ z)), w'))"

section \<open>The API over the store and the client\<close>

text \<open>
  The world of a request: the database, the clock, and the calls made so far to the
  remote client's \<open>get_carbon_intensity\<close> (zone and datetime argument), oldest first.
\<close>

record world =
  db :: store
  now :: datetime
  remote_calls :: "(string \<times> string option) list"

text \<open>
  Modelled from the spec: the dependencies of the endpoints over that world. The methods
  of the database are the operations of the store, and never raise; the client's method is \<open>client_getIntensity\<close>
  against the provider, and every call of it is recorded. \<open>incl\<close> is the reading of
  the range's end, \<open>fromiso\<close> is \<open>datetime.fromisoformat\<close>, \<open>parse\<close> is the client's
  parser of instants.
\<close>

definition live ::
    "bool \<Rightarrow> (string \<Rightarrow> datetime option) \<Rightarrow> (string \<Rightarrow> datetime option)
       \<Rightarrow> (string \<Rightarrow> string option \<Rightarrow> provider_reply) \<Rightarrow> world deps" where
  "live incl fromiso parse provider =
     \<lparr> db_get_zones = (\<lambda>w. (Inr (listZones (db w)), w)),
       db_get_carbon_intensity_history = (\<lambda>z a b w. (Inr (getRange incl (db w) z a b), w)),
       db_get_latest_carbon_intensity = (\<lambda>z w. (Inr (getLatest (db w) z), w)),
       db_insert_carbon_intensity =
         (\<lambda>ob w. (Inr (fst (upsertObservation ob (db w))),
                   w\<lparr> db := snd (upsertObservation ob (db w)) \<rparr>)),
       db_get_average_carbon_intensity = (\<lambda>z h w. (Inr (getAverage (db w) (now w) z h), w)),
       client_get_carbon_intensity =
         (\<lambda>z i w. (client_getIntensity parse provider z i,
                    w\<lparr> remote_calls := remote_calls w @ [(z, i)] \<rparr>)),
       fromisoformat = fromiso,
       utcnow = now \<rparr>"

text \<open>
  The world after the fetch of a miss: the record the client returned is written to the
  store, and the call of the client is the last of the calls made.
\<close>

definition fetched_world :: "world \<Rightarrow> string \<Rightarrow> string option \<Rightarrow> CarbonIntensityData \<Rightarrow> world" where
  "fetched_world w z i ob =
     w\<lparr> db := snd (upsertObservation ob (db w)), remote_calls := remote_calls w @ [(z, i)] \<rparr>"

section \<open>Concrete inputs\<close>

text \<open>
  \<open>CarbonIntensityData(zone=z, timestamp=t, carbon_intensity=c)\<close>, as the tests build it.
\<close>

definition observation :: "string \<Rightarrow> datetime \<Rightarrow> real \<Rightarrow> CarbonIntensityData" where
  "observation z t c =
     \<lparr> zone = z, timestamp = t, carbon_intensity = c,
       fossil_fuel_percentage = None, renewable_percentage = None, nuclear_percentage = None,
       hydro_percentage = None, wind_percentage = None, solar_percentage = None,
       biomass_percentage = None, coal_percentage = None, gas_percentage = None,
       oil_percentage = None, unknown_percentage = None, total_production = None,
       total_consumption = None \<rparr>"

text \<open>
  Two parsers that know one instant each, 2024-01-15 10:30:00 UTC, and reject every other
  string: the first as \<open>datetime.fromisoformat\<close> reads it, the second as the provider
  writes it.
\<close>

definition t_1030 :: datetime where
  "t_1030 = 1705314600000000"

definition iso_table :: "string \<Rightarrow> datetime option" where
  "iso_table s = (if s = ''2024-01-15T10:30:00+00:00'' then Some t_1030 else None)"

definition utc_table :: "string \<Rightarrow> datetime option" where
  "utc_table s = (if s = ''2024-01-15T10:30:00Z'' then Some t_1030 else None)"

text \<open>The answer of \<open>test_partial_data_response\<close>: only the two required fields.\<close>

definition partial_response :: provider_body where
  "partial_response =
     \<lparr> pb_datetime = Some ''2024-01-15T10:30:00Z'',
       pb_number = [''carbonIntensity'' \<mapsto> 250.5] \<rparr>"

definition provider_partial :: "string \<Rightarrow> string option \<Rightarrow> provider_reply" where
  "provider_partial z i = Reply 200 partial_response"

definition provider_404 :: "string \<Rightarrow> string option \<Rightarrow> provider_reply" where
  "provider_404 z i = Reply 404 \<lparr> pb_datetime = None, pb_number = Map.empty \<rparr>"

definition provider_down :: "string \<Rightarrow> string option \<Rightarrow> provider_reply" where
  "provider_down z i = NetworkError"

definition world0 :: world where
  "world0 = \<lparr> db = empty_store, now = t_1030, remote_calls = [] \<rparr>"

text \<open>An answer that reports a wind share of zero.\<close>

definition zero_wind_response :: provider_body where
  "zero_wind_response =
     \<lparr> pb_datetime = Some ''2024-01-15T10:30:00Z'',
       pb_number = [''carbonIntensity'' \<mapsto> 250.5, ''windPercentage'' \<mapsto> 0] \<rparr>"

text \<open>
  A world whose store holds one observation of the zone US, taken more than eleven years
  before the request.
\<close>

definition world_us :: world where
  "world_us =
     \<lparr> db = snd (upsertObservation (observation ''US'' t_1030 250.5) empty_store),
       now = t_1030 + timedelta_hours 100000,
       remote_calls = [] \<rparr>"

text \<open>
  The world after the zone US has been fetched into the empty store by the call of the
  client with the datetime argument \<open>i\<close>.
\<close>

definition world_fetched_us :: "string option \<Rightarrow> world" where
  "world_fetched_us i =
     \<lparr> db = \<lparr> zone_rows = [], intensity_rows = [observation ''US'' t_1030 250.5] \<rparr>,
       now = t_1030,
       remote_calls = [(''US'', i)] \<rparr>"

text \<open>
  A database that cannot be used: every method of \<open>DatabaseManager\<close> raises. The client
  and the parsers are those of \<open>live\<close>.
\<close>

definition storage_down :: "world deps" where
  "storage_down =
     (live True iso_table utc_table provider_partial)
       \<lparr> db_get_zones := io_raise StorageFailure,
         db_get_carbon_intensity_history := (\<lambda>z a b. io_raise StorageFailure),
         db_get_latest_carbon_intensity := (\<lambda>z. io_raise StorageFailure),
         db_insert_carbon_intensity := (\<lambda>ob. io_raise StorageFailure),
         db_get_average_carbon_intensity := (\<lambda>z h. io_raise StorageFailure) \<rparr>"

text \<open>
  A database whose insert reports failure and writes nothing; everything else is as in
  \<open>live\<close>.
\<close>

definition insert_refused :: "world deps" where
  "insert_refused =
     (live False iso_table utc_table provider_partial)
       \<lparr> db_insert_carbon_intensity := (\<lambda>ob w. (Inr False, w)) \<rparr>"

text \<open>
  The instant 9999-12-31 23:30:00, in the last hour of \<open>datetime\<close>, a parser that knows
  it, and a world whose store holds an observation of the zone US at that instant.
\<close>

definition t_9999 :: datetime where
  "t_9999 = 253402299000000000"

definition iso_9999 :: "string \<Rightarrow> datetime option" where
  "iso_9999 s = (if s = ''9999-12-31T23:30:00'' then Some t_9999 else None)"

definition world_9999 :: world where
  "world_9999 =
     \<lparr> db = \<lparr> zone_rows = [], intensity_rows = [observation ''US'' t_9999 250.5] \<rparr>,
       now = t_1030,
       remote_calls = [] \<rparr>"

text \<open>
  The three observations of \<open>test_get_average_carbon_intensity\<close>, between an observation
  of the same zone five hours old and an observation of another zone.
\<close>

definition mixed_average_store :: store where
  "mixed_average_store =
     insert_all
       [observation ''TEST'' (t_1030 - timedelta_hours 5) 1000,
        observation ''TEST'' (t_1030 - timedelta_hours 2) 100,
        observation ''OTHER'' (t_1030 - timedelta_hours 1) 5000,
        observation ''TEST'' (t_1030 - timedelta_hours 1) 200,
        observation ''TEST'' t_1030 300] empty_store"

section \<open>Properties of the store and the client\<close>

subsection \<open>Upsert\<close>

lemma filter_not_key_idem:
  "filter (\<lambda>r. \<not> same_key r ob) (filter (\<lambda>r. \<not> same_key r ob) xs @ [ob])
     = filter (\<lambda>r. \<not> same_key r ob) xs"
  by (simp add: same_key_def)

lemma filter_key_after_upsert:
  "filter (\<lambda>r. same_key r ob) (filter (\<lambda>r. \<not> same_key r ob) xs @ [ob]) = [ob]"
  by (induction xs) (simp_all add: same_key_def)

text \<open>
  C4. Upserting the identical observation twice: both calls report success, exactly one
  stored row has the key (zone, timestamp) of the observation, that row is the
  observation, and the second call leaves the store as the first one left it.
\<close>

theorem upsert_twice_one_row:
  "fst (upsertObservation ob s) = True
   \<and> fst (upsertObservation ob (snd (upsertObservation ob s))) = True
   \<and> rows_with_key (snd (upsertObservation ob (snd (upsertObservation ob s)))) ob = [ob]
   \<and> length (rows_with_key (snd (upsertObservation ob (snd (upsertObservation ob s)))) ob) = 1
   \<and> snd (upsertObservation ob (snd (upsertObservation ob s))) = snd (upsertObservation ob s)"
  by (simp add: upsertObservation_def rows_with_key_def filter_not_key_idem
      filter_key_after_upsert same_key_def)

text \<open>
  The scenario of \<open>test_duplicate_insert_handling\<close>: after the two inserts, the range of
  one minute around the timestamp holds one record.
\<close>

theorem upsert_twice_one_row_witness:
  "rows_with_key
     (snd (upsertObservation (observation ''TEST'' t_1030 250)
        (snd (upsertObservation (observation ''TEST'' t_1030 250) empty_store))))
     (observation ''TEST'' t_1030 250) = [observation ''TEST'' t_1030 250]
   \<and> getRange True
       (snd (upsertObservation (observation ''TEST'' t_1030 250)
          (snd (upsertObservation (observation ''TEST'' t_1030 250) empty_store))))
       ''TEST'' (t_1030 - timedelta_minutes 1) (t_1030 + timedelta_minutes 1)
     = [observation ''TEST'' t_1030 250]"
proof -
  note t = upsert_twice_one_row [of "observation ''TEST'' t_1030 250" empty_store]
  from t have rows: "rows_with_key
     (snd (upsertObservation (observation ''TEST'' t_1030 250)
        (snd (upsertObservation (observation ''TEST'' t_1030 250) empty_store))))
     (observation ''TEST'' t_1030 250) = [observation ''TEST'' t_1030 250]"
    by blast
  from t have same: "snd (upsertObservation (observation ''TEST'' t_1030 250)
        (snd (upsertObservation (observation ''TEST'' t_1030 250) empty_store)))
      = snd (upsertObservation (observation ''TEST'' t_1030 250) empty_store)"
    by blast
  have "getRange True (snd (upsertObservation (observation ''TEST'' t_1030 250) empty_store))
          ''TEST'' (t_1030 - timedelta_minutes 1) (t_1030 + timedelta_minutes 1)
        = [observation ''TEST'' t_1030 250]"
    by (simp add: getRange_def in_window_def observation_def timedelta_minutes_def t_1030_def
        upsertObservation_def empty_store_def)
  with rows same show ?thesis by simp
qed

subsection \<open>Range queries\<close>

lemma same_key_iff: "same_key a b \<longleftrightarrow> key a = key b"
  by (auto simp: same_key_def key_def)

lemma distinct_keys_upsert: "distinct_keys s \<Longrightarrow> distinct_keys (snd (upsertObservation ob s))"
  by (auto simp: distinct_keys_def upsertObservation_def same_key_iff distinct_map_filter)

lemma distinct_keys_insert_all: "distinct_keys s \<Longrightarrow> distinct_keys (insert_all obs s)"
  by (induction obs arbitrary: s) (simp_all add: distinct_keys_upsert)

lemma distinct_keys_empty: "distinct_keys empty_store"
  by (simp add: distinct_keys_def empty_store_def)

lemma strict_sorted_zone:
  assumes "distinct (map key xs)" "\<forall>r \<in> set xs. zone r = z"
  shows "sorted_wrt (\<lambda>a b. timestamp a < timestamp b) (sort_key timestamp xs)"
proof -
  have inj: "inj_on key (set xs)" using assms(1) by (simp add: distinct_map)
  have "distinct (map timestamp xs)"
  proof -
    have "inj_on timestamp (set xs)"
      by (rule inj_onI) (use assms(2) inj in \<open>auto simp: key_def inj_on_def\<close>)
    moreover have "distinct xs" using assms(1) by (simp add: distinct_map)
    ultimately show ?thesis by (simp add: distinct_map)
  qed
  hence "distinct (map timestamp (sort_key timestamp xs))"
    by (metis distinct_map distinct_sort set_sort)
  moreover have "sorted (map timestamp (sort_key timestamp xs))" by simp
  ultimately have "sorted_wrt (<) (map timestamp (sort_key timestamp xs))"
    by (simp add: strict_sorted_iff)
  thus ?thesis by (simp add: sorted_wrt_map)
qed

lemma getRange_strict:
  assumes "distinct_keys s"
  shows "sorted_wrt (\<lambda>a b. timestamp a < timestamp b) (getRange incl s z a b)"
  unfolding getRange_def
  by (rule strict_sorted_zone[where z=z]) (use assms in \<open>auto simp: distinct_keys_def distinct_map_filter\<close>)

lemma set_getRange:
  "set (getRange incl s z a b)
     = {r \<in> set (intensity_rows s). zone r = z \<and> in_window incl a b (timestamp r)}"
  by (auto simp: getRange_def)

lemma strict_sorted_unique:
  assumes "sorted_wrt (\<lambda>a b. timestamp a < timestamp b) xs"
      and "sorted_wrt (\<lambda>a b. timestamp a < timestamp b) ys"
      and "set xs = set ys"
  shows "xs = ys"
  using assms
proof (induction xs arbitrary: ys)
  case Nil
  then show ?case by simp
next
  case (Cons x xs)
  then obtain y ys' where ys: "ys = y # ys'" by (cases ys) auto
  have "x = y"
  proof (rule ccontr)
    assume ne: "x \<noteq> y"
    with Cons.prems(3) ys have "x \<in> set ys'" "y \<in> set xs" by auto
    with Cons.prems(1,2) ys have "timestamp y < timestamp x" "timestamp x < timestamp y" by auto
    thus False by simp
  qed
  moreover have "x \<notin> set xs" "y \<notin> set ys'" using Cons.prems(1,2) ys by auto
  ultimately have "set xs = set ys'" using Cons.prems(3) ys by auto
  with Cons.IH[of ys'] Cons.prems(1,2) ys \<open>x = y\<close> show ?case by simp
qed

text \<open>
  C6. After any sequence of inserts into the empty store, \<open>getRange\<close> returns exactly the
  stored observations of the zone whose timestamps lie in the window, in strictly
  ascending order of timestamp; and the order of the inserts does not matter: two
  sequences of inserts that leave the same set of stored observations give the same
  result.
\<close>

theorem getRange_ascending_exact:
  "sorted_wrt (\<lambda>x y. timestamp x < timestamp y) (getRange incl (insert_all obs empty_store) z a b)
   \<and> set (getRange incl (insert_all obs empty_store) z a b)
       = {r \<in> set (intensity_rows (insert_all obs empty_store)).
            zone r = z \<and> in_window incl a b (timestamp r)}
   \<and> (set (intensity_rows (insert_all obs' empty_store))
         = set (intensity_rows (insert_all obs empty_store))
       \<longrightarrow> getRange incl (insert_all obs' empty_store) z a b
             = getRange incl (insert_all obs empty_store) z a b)"
proof (intro conjI impI)
  show st: "sorted_wrt (\<lambda>x y. timestamp x < timestamp y)
          (getRange incl (insert_all obs empty_store) z a b)" for obs
    by (rule getRange_strict) (simp add: distinct_keys_insert_all distinct_keys_empty)
  show "set (getRange incl (insert_all obs empty_store) z a b)
       = {r \<in> set (intensity_rows (insert_all obs empty_store)).
            zone r = z \<and> in_window incl a b (timestamp r)}"
    by (rule set_getRange)
  assume "set (intensity_rows (insert_all obs' empty_store))
         = set (intensity_rows (insert_all obs empty_store))"
  hence "set (getRange incl (insert_all obs' empty_store) z a b)
       = set (getRange incl (insert_all obs empty_store) z a b)"
    by (simp add: set_getRange)
  with st[of obs'] st[of obs]
  show "getRange incl (insert_all obs' empty_store) z a b
             = getRange incl (insert_all obs empty_store) z a b"
    by (rule strict_sorted_unique)
qed

lemma three_rows:
  "intensity_rows (insert_all
       [observation ''TEST'' t_1030 300,
        observation ''TEST'' (t_1030 - timedelta_hours 2) 200,
        observation ''TEST'' (t_1030 - timedelta_hours 1) 250] empty_store)
    = [observation ''TEST'' t_1030 300,
        observation ''TEST'' (t_1030 - timedelta_hours 2) 200,
        observation ''TEST'' (t_1030 - timedelta_hours 1) 250]"
  by (simp add: upsertObservation_def empty_store_def same_key_def observation_def
      timedelta_hours_def t_1030_def)

lemma three_rows':
  "intensity_rows (insert_all
       [observation ''TEST'' (t_1030 - timedelta_hours 2) 200,
        observation ''TEST'' (t_1030 - timedelta_hours 1) 250,
        observation ''TEST'' t_1030 300] empty_store)
    = [observation ''TEST'' (t_1030 - timedelta_hours 2) 200,
        observation ''TEST'' (t_1030 - timedelta_hours 1) 250,
        observation ''TEST'' t_1030 300]"
  by (simp add: upsertObservation_def empty_store_def same_key_def observation_def
      timedelta_hours_def t_1030_def)

text \<open>
  The three observations of \<open>test_get_carbon_intensity_history\<close>, inserted newest first.
\<close>

theorem getRange_ascending_exact_witness:
  "getRange True (insert_all
       [observation ''TEST'' t_1030 300,
        observation ''TEST'' (t_1030 - timedelta_hours 2) 200,
        observation ''TEST'' (t_1030 - timedelta_hours 1) 250] empty_store)
     ''TEST'' (t_1030 - timedelta_hours 3) (t_1030 + timedelta_hours 1)
   = [observation ''TEST'' (t_1030 - timedelta_hours 2) 200,
      observation ''TEST'' (t_1030 - timedelta_hours 1) 250,
      observation ''TEST'' t_1030 300]"
proof -
  have "getRange True (insert_all
       [observation ''TEST'' (t_1030 - timedelta_hours 2) 200,
        observation ''TEST'' (t_1030 - timedelta_hours 1) 250,
        observation ''TEST'' t_1030 300] empty_store)
     ''TEST'' (t_1030 - timedelta_hours 3) (t_1030 + timedelta_hours 1)
   = [observation ''TEST'' (t_1030 - timedelta_hours 2) 200,
      observation ''TEST'' (t_1030 - timedelta_hours 1) 250,
      observation ''TEST'' t_1030 300]"
    unfolding getRange_def three_rows'
    by (simp add: in_window_def observation_def timedelta_hours_def t_1030_def)
  moreover have "set (intensity_rows (insert_all
       [observation ''TEST'' (t_1030 - timedelta_hours 2) 200,
        observation ''TEST'' (t_1030 - timedelta_hours 1) 250,
        observation ''TEST'' t_1030 300] empty_store))
    = set (intensity_rows (insert_all
       [observation ''TEST'' t_1030 300,
        observation ''TEST'' (t_1030 - timedelta_hours 2) 200,
        observation ''TEST'' (t_1030 - timedelta_hours 1) 250] empty_store))"
    unfolding three_rows three_rows' by auto
  ultimately show ?thesis
    using getRange_ascending_exact [of True
       "[observation ''TEST'' t_1030 300,
        observation ''TEST'' (t_1030 - timedelta_hours 2) 200,
        observation ''TEST'' (t_1030 - timedelta_hours 1) 250]"
       "''TEST''" "t_1030 - timedelta_hours 3" "t_1030 + timedelta_hours 1"
       "[observation ''TEST'' (t_1030 - timedelta_hours 2) 200,
        observation ''TEST'' (t_1030 - timedelta_hours 1) 250,
        observation ''TEST'' t_1030 300]"]
    by simp
qed

subsection \<open>Averages\<close>

lemma mean_of_mset:
  fixes xs :: "real list"
  assumes "mset xs = {#100, 200, 300#}"
  shows "sum_list xs / real (length xs) = 200"
proof -
  have "sum_list xs = sum_mset (mset xs)" by (simp add: sum_mset_sum_list)
  hence s: "sum_list xs = 600" using assms by simp
  have "length xs = size (mset xs)" by simp
  hence l: "length xs = 3" using assms by simp
  show ?thesis by (simp add: s l)
qed

lemma average_window_rows:
  "average_window s t z hours
     = filter (\<lambda>r. zone r = z \<and> t - hours * 3600000000 \<le> timestamp r \<and> timestamp r \<le> t)
         (intensity_rows s)"
  by (simp add: average_window_def timedelta_hours_def)

lemma getAverage_rows:
  "getAverage s t z hours
     = (if filter (\<lambda>r. zone r = z \<and> t - hours * 3600000000 \<le> timestamp r \<and> timestamp r \<le> t)
             (intensity_rows s) = []
        then None
        else Some (sum_list (map carbon_intensity
                     (filter (\<lambda>r. zone r = z \<and> t - hours * 3600000000 \<le> timestamp r
                                 \<and> timestamp r \<le> t) (intensity_rows s)))
                   / real (length
                     (filter (\<lambda>r. zone r = z \<and> t - hours * 3600000000 \<le> timestamp r
                                 \<and> timestamp r \<le> t) (intensity_rows s)))))"
  by (simp add: getAverage_def Let_def average_window_rows)

lemma average_endpoint:
  "get_average_carbon_intensity (live incl fromiso parse provider) z hours w
     = ((case getAverage (db w) (now w) z hours of
          None \<Rightarrow> Inl (HTTPException 404 (''No data available for '' @ z))
        | Some a \<Rightarrow>
            Inr \<lparr> success = True, data = Some (AveragePayload z a hours),
                  message = Some (''Average carbon intensity for '' @ z @ '' over ''
                                    @ str_int hours @ '' hours''),
                  response_timestamp = now w \<rparr>), w)"
  by (simp add: get_average_carbon_intensity_def live_def average_response_def
      split: option.splits)

text \<open>
  C3. The rows \<open>getAverage\<close> averages are the stored observations of the requested zone
  whose timestamp lies between \<open>hours\<close> hours (of 3600000000 microseconds) before now
  and now, both ends included, and no others. When there is none, the result is absent;
  otherwise it is the sum of their carbon intensities divided by their number. When
  those intensities are 100, 200 and 300, in any order, the result is exactly 200,
  whatever else the store holds. The API endpoint hands the mean on in its payload and
  turns absence into the 404 "No data available".
\<close>

theorem getAverage_mean:
  "((\<forall>r \<in> set (intensity_rows s).
        \<not> (zone r = z \<and> t - hours * 3600000000 \<le> timestamp r \<and> timestamp r \<le> t)) \<longrightarrow>
      getAverage s t z hours = None)
   \<and> ((\<exists>r \<in> set (intensity_rows s).
          zone r = z \<and> t - hours * 3600000000 \<le> timestamp r \<and> timestamp r \<le> t) \<longrightarrow>
        getAverage s t z hours
          = Some (sum_list (map carbon_intensity
                     (filter (\<lambda>r. zone r = z \<and> t - hours * 3600000000 \<le> timestamp r
                                 \<and> timestamp r \<le> t) (intensity_rows s)))
                   / real (length
                     (filter (\<lambda>r. zone r = z \<and> t - hours * 3600000000 \<le> timestamp r
                                 \<and> timestamp r \<le> t) (intensity_rows s)))))
   \<and> (mset (map carbon_intensity
          (filter (\<lambda>r. zone r = z \<and> t - hours * 3600000000 \<le> timestamp r \<and> timestamp r \<le> t)
             (intensity_rows s))) = {#100, 200, 300#} \<longrightarrow>
        getAverage s t z hours = Some 200)
   \<and> get_average_carbon_intensity (live incl fromiso parse provider) z hours w
       = ((case getAverage (db w) (now w) z hours of
            None \<Rightarrow> Inl (HTTPException 404 (''No data available for '' @ z))
          | Some a \<Rightarrow>
              Inr \<lparr> success = True, data = Some (AveragePayload z a hours),
                    message = Some (''Average carbon intensity for '' @ z @ '' over ''
                                      @ str_int hours @ '' hours''),
                    response_timestamp = now w \<rparr>), w)"
proof (intro conjI impI)
  show "getAverage s t z hours = None"
    if "\<forall>r \<in> set (intensity_rows s).
          \<not> (zone r = z \<and> t - hours * 3600000000 \<le> timestamp r \<and> timestamp r \<le> t)"
  proof -
    from that have "filter (\<lambda>r. zone r = z \<and> t - hours * 3600000000 \<le> timestamp r
        \<and> timestamp r \<le> t) (intensity_rows s) = []"
      by (simp add: filter_empty_conv)
    thus ?thesis by (simp add: getAverage_rows)
  qed
  show "getAverage s t z hours
          = Some (sum_list (map carbon_intensity
                     (filter (\<lambda>r. zone r = z \<and> t - hours * 3600000000 \<le> timestamp r
                                 \<and> timestamp r \<le> t) (intensity_rows s)))
                   / real (length
                     (filter (\<lambda>r. zone r = z \<and> t - hours * 3600000000 \<le> timestamp r
                                 \<and> timestamp r \<le> t) (intensity_rows s))))"
    if "\<exists>r \<in> set (intensity_rows s).
          zone r = z \<and> t - hours * 3600000000 \<le> timestamp r \<and> timestamp r \<le> t"
  proof -
    from that have "filter (\<lambda>r. zone r = z \<and> t - hours * 3600000000 \<le> timestamp r
        \<and> timestamp r \<le> t) (intensity_rows s) \<noteq> []"
      by (auto simp: filter_empty_conv)
    thus ?thesis by (simp add: getAverage_rows)
  qed
  show "getAverage s t z hours = Some 200"
    if m: "mset (map carbon_intensity
          (filter (\<lambda>r. zone r = z \<and> t - hours * 3600000000 \<le> timestamp r \<and> timestamp r \<le> t)
             (intensity_rows s))) = {#100, 200, 300#}"
  proof -
    let ?F = "filter (\<lambda>r. zone r = z \<and> t - hours * 3600000000 \<le> timestamp r
        \<and> timestamp r \<le> t) (intensity_rows s)"
    have "length (map carbon_intensity ?F) = size (mset (map carbon_intensity ?F))"
      by (simp only: size_mset)
    also have "\<dots> = size {#100, 200, 300 :: real#}" by (simp only: m)
    finally have "length ?F = 3" by simp
    hence ne: "?F \<noteq> []" by auto
    from mean_of_mset [OF m]
    have "sum_list (map carbon_intensity
            (filter (\<lambda>r. zone r = z \<and> t - hours * 3600000000 \<le> timestamp r \<and> timestamp r \<le> t)
               (intensity_rows s)))
          / real (length
            (filter (\<lambda>r. zone r = z \<and> t - hours * 3600000000 \<le> timestamp r \<and> timestamp r \<le> t)
               (intensity_rows s))) = 200"
      by simp
    with ne show ?thesis by (simp add: getAverage_rows)
  qed
  show "get_average_carbon_intensity (live incl fromiso parse provider) z hours w
       = ((case getAverage (db w) (now w) z hours of
            None \<Rightarrow> Inl (HTTPException 404 (''No data available for '' @ z))
          | Some a \<Rightarrow>
              Inr \<lparr> success = True, data = Some (AveragePayload z a hours),
                    message = Some (''Average carbon intensity for '' @ z @ '' over ''
                                      @ str_int hours @ '' hours''),
                    response_timestamp = now w \<rparr>), w)"
    by (rule average_endpoint)
qed

lemma mixed_rows:
  "intensity_rows mixed_average_store
     = [observation ''TEST'' (t_1030 - timedelta_hours 5) 1000,
        observation ''TEST'' (t_1030 - timedelta_hours 2) 100,
        observation ''OTHER'' (t_1030 - timedelta_hours 1) 5000,
        observation ''TEST'' (t_1030 - timedelta_hours 1) 200,
        observation ''TEST'' t_1030 300]"
  by (simp add: mixed_average_store_def upsertObservation_def empty_store_def same_key_def
      observation_def timedelta_hours_def t_1030_def)

lemma mixed_window:
  "filter (\<lambda>r. zone r = ''TEST'' \<and> t_1030 - 3 * 3600000000 \<le> timestamp r
                \<and> timestamp r \<le> t_1030) (intensity_rows mixed_average_store)
     = [observation ''TEST'' (t_1030 - timedelta_hours 2) 100,
        observation ''TEST'' (t_1030 - timedelta_hours 1) 200,
        observation ''TEST'' t_1030 300]"
  unfolding mixed_rows
  by (simp add: observation_def timedelta_hours_def t_1030_def)

text \<open>
  The scenario of \<open>test_get_average_carbon_intensity\<close> in a store that also holds an
  observation of the zone outside the three hours and an observation of another zone;
  the same store asked for a zone it does not hold; and the empty store.
\<close>

theorem getAverage_mean_witness:
  "getAverage mixed_average_store t_1030 ''TEST'' 3 = Some 200
   \<and> getAverage mixed_average_store t_1030 ''NONE'' 3 = None
   \<and> getAverage empty_store t_1030 ''TEST'' 3 = None"
proof -
  have "mset (map carbon_intensity
          (filter (\<lambda>r. zone r = ''TEST'' \<and> t_1030 - 3 * 3600000000 \<le> timestamp r
                \<and> timestamp r \<le> t_1030) (intensity_rows mixed_average_store)))
          = {#100, 200, 300#}"
    unfolding mixed_window by (simp add: observation_def)
  with getAverage_mean [where s = mixed_average_store and t = t_1030 and z = "''TEST''"
      and hours = 3, THEN conjunct2, THEN conjunct2, THEN conjunct1]
  have a: "getAverage mixed_average_store t_1030 ''TEST'' 3 = Some 200" by simp
  have "\<forall>r \<in> set (intensity_rows mixed_average_store).
          \<not> (zone r = ''NONE'' \<and> t_1030 - 3 * 3600000000 \<le> timestamp r
               \<and> timestamp r \<le> t_1030)"
    unfolding mixed_rows by (simp add: observation_def)
  with getAverage_mean [where s = mixed_average_store and t = t_1030 and z = "''NONE''"
      and hours = 3, THEN conjunct1]
  have b: "getAverage mixed_average_store t_1030 ''NONE'' 3 = None" by simp
  have "\<forall>r \<in> set (intensity_rows empty_store).
          \<not> (zone r = ''TEST'' \<and> t_1030 - 3 * 3600000000 \<le> timestamp r
               \<and> timestamp r \<le> t_1030)"
    by (simp add: empty_store_def)
  with getAverage_mean [where s = empty_store and t = t_1030 and z = "''TEST''"
      and hours = 3, THEN conjunct1]
  have c: "getAverage empty_store t_1030 ''TEST'' 3 = None" by simp
  from a b c show ?thesis by simp
qed

subsection \<open>Normalisation of provider answers\<close>

lemma wire_lookup:
  "map_of wire_names ''fossil_fuel_percentage'' = Some ''fossilFuelPercentage''"
  "map_of wire_names ''renewable_percentage'' = Some ''renewablePercentage''"
  "map_of wire_names ''nuclear_percentage'' = Some ''nuclearPercentage''"
  "map_of wire_names ''hydro_percentage'' = Some ''hydroPercentage''"
  "map_of wire_names ''wind_percentage'' = Some ''windPercentage''"
  "map_of wire_names ''solar_percentage'' = Some ''solarPercentage''"
  "map_of wire_names ''biomass_percentage'' = Some ''biomassPercentage''"
  "map_of wire_names ''coal_percentage'' = Some ''coalPercentage''"
  "map_of wire_names ''gas_percentage'' = Some ''gasPercentage''"
  "map_of wire_names ''oil_percentage'' = Some ''oilPercentage''"
  "map_of wire_names ''unknown_percentage'' = Some ''unknownPercentage''"
  "map_of wire_names ''total_production'' = Some ''totalProduction''"
  "map_of wire_names ''total_consumption'' = Some ''totalConsumption''"
  by (simp_all add: wire_names_def)

lemma normalize_ok:
  assumes "pb_datetime body = Some d" "parse d = Some t"
      and "pb_number body ''carbonIntensity'' = Some c"
  shows "normalize_intensity parse z body =
     Inr \<lparr> zone = z, timestamp = t, carbon_intensity = c,
           fossil_fuel_percentage = pb_number body ''fossilFuelPercentage'',
           renewable_percentage = pb_number body ''renewablePercentage'',
           nuclear_percentage = pb_number body ''nuclearPercentage'',
           hydro_percentage = pb_number body ''hydroPercentage'',
           wind_percentage = pb_number body ''windPercentage'',
           solar_percentage = pb_number body ''solarPercentage'',
           biomass_percentage = pb_number body ''biomassPercentage'',
           coal_percentage = pb_number body ''coalPercentage'',
           gas_percentage = pb_number body ''gasPercentage'',
           oil_percentage = pb_number body ''oilPercentage'',
           unknown_percentage = pb_number body ''unknownPercentage'',
           total_production = pb_number body ''totalProduction'',
           total_consumption = pb_number body ''totalConsumption'' \<rparr>"
  using assms by (simp add: normalize_intensity_def CarbonIntensityData_init_def wire_lookup)

lemma normalize_required:
  "pb_datetime body = None \<or> pb_number body ''carbonIntensity'' = None
     \<Longrightarrow> \<exists>e. normalize_intensity parse z body = Inl e"
  by (cases "pb_datetime body"; cases "pb_number body ''carbonIntensity''")
     (simp_all add: normalize_intensity_def CarbonIntensityData_init_def split: option.split)

lemma normalize_Inr:
  assumes "normalize_intensity parse z body = Inr r"
  shows "\<exists>d. pb_datetime body = Some d \<and> parse d = Some (timestamp r)
           \<and> pb_number body ''carbonIntensity'' = Some (carbon_intensity r) \<and> zone r = z"
proof (cases "pb_datetime body")
  case None
  with assms normalize_required [of body parse z] show ?thesis by auto
next
  case (Some d)
  show ?thesis
  proof (cases "parse d")
    case None
    with Some assms show ?thesis by (simp add: normalize_intensity_def)
  next
    case pd: (Some t)
    show ?thesis
    proof (cases "pb_number body ''carbonIntensity''")
      case None
      with assms normalize_required [of body parse z] show ?thesis by auto
    next
      case c: (Some c)
      from normalize_ok [where body = body and d = d and parse = parse and t = t and c = c
          and z = z, OF Some pd c] assms
      have "zone r = z \<and> timestamp r = t \<and> carbon_intensity r = c" by fastforce
      with Some pd c show ?thesis by simp
    qed
  qed
qed

text \<open>
  C9. When the provider's answer has its \<open>datetime\<close> and \<open>carbonIntensity\<close>, the record
  built from it has the requested zone, the parsed timestamp and that intensity, and each
  optional field is exactly the provider's field of the matching name: absent when the
  provider left it out, and the measured value (zero included) when it is there. An
  answer without \<open>datetime\<close> or \<open>carbonIntensity\<close> gives no record but an error. The
  constructor of \<open>models.py\<close> called with the required fields only leaves every optional
  field \<open>None\<close>, and refuses a call without \<open>carbon_intensity\<close>.
\<close>

theorem optional_fields_stay_absent:
  "(pb_datetime body = Some d \<and> parse d = Some t
      \<and> pb_number body ''carbonIntensity'' = Some c \<longrightarrow>
     normalize_intensity parse z body =
       Inr \<lparr> zone = z, timestamp = t, carbon_intensity = c,
             fossil_fuel_percentage = pb_number body ''fossilFuelPercentage'',
             renewable_percentage = pb_number body ''renewablePercentage'',
             nuclear_percentage = pb_number body ''nuclearPercentage'',
             hydro_percentage = pb_number body ''hydroPercentage'',
             wind_percentage = pb_number body ''windPercentage'',
             solar_percentage = pb_number body ''solarPercentage'',
             biomass_percentage = pb_number body ''biomassPercentage'',
             coal_percentage = pb_number body ''coalPercentage'',
             gas_percentage = pb_number body ''gasPercentage'',
             oil_percentage = pb_number body ''oilPercentage'',
             unknown_percentage = pb_number body ''unknownPercentage'',
             total_production = pb_number body ''totalProduction'',
             total_consumption = pb_number body ''totalConsumption'' \<rparr>)
   \<and> (pb_datetime body = None \<or> pb_number body ''carbonIntensity'' = None \<longrightarrow>
        (\<exists>e. normalize_intensity parse z body = Inl e))
   \<and> CarbonIntensityData_init (Some z) (Some t) (Some c) Map.empty = Inr (observation z t c)
   \<and> CarbonIntensityData_init zo tO None kw = Inl ValidationError"
proof (intro conjI impI)
  assume "pb_datetime body = Some d \<and> parse d = Some t
      \<and> pb_number body ''carbonIntensity'' = Some c"
  thus "normalize_intensity parse z body =
       Inr \<lparr> zone = z, timestamp = t, carbon_intensity = c,
             fossil_fuel_percentage = pb_number body ''fossilFuelPercentage'',
             renewable_percentage = pb_number body ''renewablePercentage'',
             nuclear_percentage = pb_number body ''nuclearPercentage'',
             hydro_percentage = pb_number body ''hydroPercentage'',
             wind_percentage = pb_number body ''windPercentage'',
             solar_percentage = pb_number body ''solarPercentage'',
             biomass_percentage = pb_number body ''biomassPercentage'',
             coal_percentage = pb_number body ''coalPercentage'',
             gas_percentage = pb_number body ''gasPercentage'',
             oil_percentage = pb_number body ''oilPercentage'',
             unknown_percentage = pb_number body ''unknownPercentage'',
             total_production = pb_number body ''totalProduction'',
             total_consumption = pb_number body ''totalConsumption'' \<rparr>"
    by (simp add: normalize_ok)
next
  assume "pb_datetime body = None \<or> pb_number body ''carbonIntensity'' = None"
  thus "\<exists>e. normalize_intensity parse z body = Inl e"
    by (rule normalize_required)
next
  show "CarbonIntensityData_init (Some z) (Some t) (Some c) Map.empty = Inr (observation z t c)"
    by (simp add: CarbonIntensityData_init_def observation_def)
next
  show "CarbonIntensityData_init zo tO None kw = Inl ValidationError"
    by (simp add: CarbonIntensityData_init_def split: option.splits)
qed

text \<open>
  The answer of \<open>test_partial_data_response\<close>, an answer with a measured zero, and an
  empty answer.
\<close>

theorem optional_fields_stay_absent_witness:
  "normalize_intensity utc_table ''US'' partial_response = Inr (observation ''US'' t_1030 250.5)
   \<and> normalize_intensity utc_table ''US'' zero_wind_response
       = Inr ((observation ''US'' t_1030 250.5) \<lparr> wind_percentage := Some 0 \<rparr>)
   \<and> normalize_intensity utc_table ''US'' \<lparr> pb_datetime = None, pb_number = Map.empty \<rparr>
       = Inl ValidationError"
proof -
  have h1: "pb_datetime partial_response = Some ''2024-01-15T10:30:00Z''
      \<and> utc_table ''2024-01-15T10:30:00Z'' = Some t_1030
      \<and> pb_number partial_response ''carbonIntensity'' = Some 250.5"
    by (simp add: partial_response_def utc_table_def)
  have h2: "pb_datetime zero_wind_response = Some ''2024-01-15T10:30:00Z''
      \<and> utc_table ''2024-01-15T10:30:00Z'' = Some t_1030
      \<and> pb_number zero_wind_response ''carbonIntensity'' = Some 250.5"
    by (simp add: zero_wind_response_def utc_table_def)
  have h3: "pb_datetime \<lparr> pb_datetime = None, pb_number = Map.empty \<rparr> = None
      \<or> pb_number \<lparr> pb_datetime = None, pb_number = Map.empty \<rparr> ''carbonIntensity'' = None"
    by simp
  from optional_fields_stay_absent [of partial_response "''2024-01-15T10:30:00Z''" utc_table
      t_1030 "250.5" "''US''"] h1
  have a: "normalize_intensity utc_table ''US'' partial_response = Inr (observation ''US'' t_1030 250.5)"
    by (simp add: partial_response_def observation_def)
  from optional_fields_stay_absent [of zero_wind_response "''2024-01-15T10:30:00Z''" utc_table
      t_1030 "250.5" "''US''"] h2
  have b: "normalize_intensity utc_table ''US'' zero_wind_response
       = Inr ((observation ''US'' t_1030 250.5) \<lparr> wind_percentage := Some 0 \<rparr>)"
    by (simp add: zero_wind_response_def observation_def)
  from optional_fields_stay_absent [of "\<lparr> pb_datetime = None, pb_number = Map.empty \<rparr>" _
      utc_table _ _ "''US''"] h3
  have "\<exists>e. normalize_intensity utc_table ''US'' \<lparr> pb_datetime = None, pb_number = Map.empty \<rparr> = Inl e"
    by blast
  hence c: "normalize_intensity utc_table ''US'' \<lparr> pb_datetime = None, pb_number = Map.empty \<rparr>
       = Inl ValidationError"
    by (simp add: normalize_intensity_def)
  from a b c show ?thesis by simp
qed

subsection \<open>Errors of the remote client\<close>

lemma normalize_partial:
  "normalize_intensity utc_table ''US'' partial_response = Inr (observation ''US'' t_1030 250.5)"
proof -
  have "pb_datetime partial_response = Some ''2024-01-15T10:30:00Z''"
    and "utc_table ''2024-01-15T10:30:00Z'' = Some t_1030"
    and "pb_number partial_response ''carbonIntensity'' = Some 250.5"
    by (simp_all add: partial_response_def utc_table_def)
  from normalize_ok [where parse = utc_table and body = partial_response and z = "''US''",
      OF this]
  show ?thesis by (simp add: partial_response_def observation_def)
qed

text \<open>
  C8. The client fails with \<open>InvalidArgument\<close> when the instant cannot be parsed, with
  \<open>InvalidZone\<close> when the provider answers 404, and with \<open>RemoteUnavailable\<close> when the
  provider answers 5xx or cannot be reached; and whenever it succeeds, the provider
  answered 2xx with a \<open>datetime\<close> and a \<open>carbonIntensity\<close>, which are the timestamp and
  the intensity of the record returned: it never succeeds with null data.
\<close>

theorem client_errors:
  "(parse s = None \<longrightarrow> client_getIntensity parse provider z (Some s) = Inl InvalidArgument)
   \<and> (provider z None = Reply 404 body \<longrightarrow>
        client_getIntensity parse provider z None = Inl InvalidZone)
   \<and> (provider z None = NetworkError \<or> (provider z None = Reply st body \<and> 500 \<le> st) \<longrightarrow>
        client_getIntensity parse provider z None = Inl RemoteUnavailable)
   \<and> (client_getIntensity parse provider z i = Inr r \<longrightarrow>
        (\<exists>st' body' d. provider z i = Reply st' body' \<and> 200 \<le> st' \<and> st' < 300
           \<and> pb_datetime body' = Some d \<and> parse d = Some (timestamp r)
           \<and> pb_number body' ''carbonIntensity'' = Some (carbon_intensity r) \<and> zone r = z))"
proof (intro conjI impI)
  show "client_getIntensity parse provider z (Some s) = Inl InvalidArgument" if "parse s = None"
    using that by (simp add: client_getIntensity_def)
  show "client_getIntensity parse provider z None = Inl InvalidZone"
    if "provider z None = Reply 404 body"
    using that by (simp add: client_getIntensity_def)
  show "client_getIntensity parse provider z None = Inl RemoteUnavailable"
    if "provider z None = NetworkError \<or> (provider z None = Reply st body \<and> 500 \<le> st)"
    using that by (auto simp: client_getIntensity_def)
  show "\<exists>st' body' d. provider z i = Reply st' body' \<and> 200 \<le> st' \<and> st' < 300
           \<and> pb_datetime body' = Some d \<and> parse d = Some (timestamp r)
           \<and> pb_number body' ''carbonIntensity'' = Some (carbon_intensity r) \<and> zone r = z"
    if ok: "client_getIntensity parse provider z i = Inr r"
  proof (cases "provider z i")
    case NetworkError
    with ok show ?thesis by (simp add: client_getIntensity_def split: if_splits)
  next
    case (Reply st' body')
    with ok have st: "200 \<le> st'" "st' < 300" and n: "normalize_intensity parse z body' = Inr r"
      by (auto simp: client_getIntensity_def split: if_splits)
    from normalize_Inr [OF n] st Reply show ?thesis by auto
  qed
qed

text \<open>
  The calls of \<open>test_error_handling\<close>: the zone US with the instant "invalid-datetime",
  and the zone INVALID\_ZONE against a provider that answers 404 and one that is down.
\<close>

theorem client_errors_witness:
  "client_getIntensity utc_table provider_partial ''US'' (Some ''invalid-datetime'')
     = Inl InvalidArgument
   \<and> client_getIntensity utc_table provider_404 ''INVALID_ZONE'' None = Inl InvalidZone
   \<and> client_getIntensity utc_table provider_down ''INVALID_ZONE'' None = Inl RemoteUnavailable
   \<and> client_getIntensity utc_table provider_partial ''US'' None
       = Inr (observation ''US'' t_1030 250.5)
   \<and> provider_partial ''US'' None = Reply 200 partial_response"
proof -
  have h1: "utc_table ''invalid-datetime'' = None" by (simp add: utc_table_def)
  have h2: "provider_404 ''INVALID_ZONE'' None
              = Reply 404 \<lparr> pb_datetime = None, pb_number = Map.empty \<rparr>"
    by (simp add: provider_404_def)
  have h3: "provider_down ''INVALID_ZONE'' None = NetworkError" by (simp add: provider_down_def)
  have h4: "client_getIntensity utc_table provider_partial ''US'' None
       = Inr (observation ''US'' t_1030 250.5)"
    by (simp add: client_getIntensity_def provider_partial_def normalize_partial)
  from client_errors [of utc_table "''invalid-datetime''" provider_partial "''US''"] h1
  have a: "client_getIntensity utc_table provider_partial ''US'' (Some ''invalid-datetime'')
     = Inl InvalidArgument" by blast
  from client_errors [of utc_table _ provider_404 "''INVALID_ZONE''"] h2
  have b: "client_getIntensity utc_table provider_404 ''INVALID_ZONE'' None = Inl InvalidZone"
    by blast
  from client_errors [of utc_table _ provider_down "''INVALID_ZONE''"] h3
  have c: "client_getIntensity utc_table provider_down ''INVALID_ZONE'' None
             = Inl RemoteUnavailable"
    by blast
  from client_errors [of utc_table _ provider_partial "''US''" _ _ None
      "observation ''US'' t_1030 250.5"] h4
  obtain st' body' where "provider_partial ''US'' None = Reply st' body'" by blast
  hence e: "provider_partial ''US'' None = Reply 200 partial_response"
    by (simp add: provider_partial_def)
  from a b c h4 e show ?thesis by simp
qed

section \<open>Properties of the query API\<close>

subsection \<open>The endpoints over the store and the client\<close>

lemma live_sel:
  "db_get_carbon_intensity_history (live incl fromiso parse provider)
     = (\<lambda>z a b w. (Inr (getRange incl (db w) z a b), w))"
  "db_get_latest_carbon_intensity (live incl fromiso parse provider)
     = (\<lambda>z w. (Inr (getLatest (db w) z), w))"
  "db_insert_carbon_intensity (live incl fromiso parse provider)
     = (\<lambda>ob w. (Inr (fst (upsertObservation ob (db w))),
                w\<lparr> db := snd (upsertObservation ob (db w)) \<rparr>))"
  "db_get_average_carbon_intensity (live incl fromiso parse provider)
     = (\<lambda>z h w. (Inr (getAverage (db w) (now w) z h), w))"
  "client_get_carbon_intensity (live incl fromiso parse provider)
     = (\<lambda>z i w. (client_getIntensity parse provider z i,
                  w\<lparr> remote_calls := remote_calls w @ [(z, i)] \<rparr>))"
  "fromisoformat (live incl fromiso parse provider) = fromiso"
  "utcnow (live incl fromiso parse provider) = now"
  "db_get_zones (live incl fromiso parse provider) = (\<lambda>w. (Inr (listZones (db w)), w))"
  by (simp_all add: live_def)

lemma get_carbon_intensity_cases:
  "carbon_intensity_lookup d z dts w = (Inr x, w')
     \<Longrightarrow> get_carbon_intensity d z dts w = (Inr (intensity_response z x (utcnow d w')), w')"
  "carbon_intensity_lookup d z dts w = (Inl e, w')
     \<Longrightarrow> get_carbon_intensity d z dts w
           = (Inl (HTTPException 500 (''Failed to retrieve carbon intensity for '' @ z)), w')"
  by (simp_all add: get_carbon_intensity_def)

text \<open>The steps of the branch with an instant, one after the other.\<close>

lemma instant_steps:
  assumes "s \<noteq> []" "fromisoformat d (replace_Z s) = Some T"
      and "datetime_add T (timedelta_hours 1) = Some E"
  shows "carbon_intensity_lookup d z (Some s) w
           = io_bind (db_get_carbon_intensity_history d z T E)
               (\<lambda>history.
                  case history of
                    h # _ \<Rightarrow> io_return h
                  | [] \<Rightarrow>
                      io_bind (client_get_carbon_intensity d z (Some s))
                        (\<lambda>fetched. io_bind (db_insert_carbon_intensity d fetched)
                           (\<lambda>_. io_return fetched))) w"
proof -
  from assms(1) obtain c cs where s: "s = c # cs" by (cases s) auto
  from assms(2,3) show ?thesis
    unfolding s carbon_intensity_lookup_def by simp
qed

lemma latest_steps:
  assumes "dts = None \<or> dts = Some []"
  shows "carbon_intensity_lookup d z dts w
           = io_bind (db_get_latest_carbon_intensity d z)
               (\<lambda>latest.
                  case latest of
                    Some x \<Rightarrow> io_return x
                  | None \<Rightarrow>
                      io_bind (client_get_carbon_intensity d z None)
                        (\<lambda>fetched. io_bind (db_insert_carbon_intensity d fetched)
                           (\<lambda>_. io_return fetched))) w"
  using assms by (auto simp: carbon_intensity_lookup_def)

lemma instant_overflow:
  assumes "s \<noteq> []" "fromisoformat d (replace_Z s) = Some T"
      and "datetime_add T (timedelta_hours 1) = None"
  shows "get_carbon_intensity d z (Some s) w
           = (Inl (HTTPException 500 (''Failed to retrieve carbon intensity for '' @ z)), w)"
proof -
  from assms(1) obtain c cs where s: "s = c # cs" by (cases s) auto
  with assms(2,3) have "carbon_intensity_lookup d z (Some s) w = (Inl OverflowError, w)"
    by (simp add: carbon_intensity_lookup_def io_raise_def)
  thus ?thesis by (rule get_carbon_intensity_cases(2))
qed

lemma instant_hit:
  assumes "s \<noteq> []" "fromisoformat d (replace_Z s) = Some T"
      and "datetime_add T (timedelta_hours 1) = Some E"
      and "db_get_carbon_intensity_history d z T E w = (Inr (h # rest), w1)"
  shows "get_carbon_intensity d z (Some s) w = (Inr (intensity_response z h (utcnow d w1)), w1)"
proof -
  from assms(4) have "carbon_intensity_lookup d z (Some s) w = (Inr h, w1)"
    by (simp add: instant_steps [OF assms(1-3)] io_bind_def io_return_def)
  thus ?thesis by (rule get_carbon_intensity_cases(1))
qed

lemma latest_hit:
  assumes "dts = None \<or> dts = Some []"
      and "db_get_latest_carbon_intensity d z w = (Inr (Some x), w1)"
  shows "get_carbon_intensity d z dts w = (Inr (intensity_response z x (utcnow d w1)), w1)"
proof -
  from assms(2) have "carbon_intensity_lookup d z dts w = (Inr x, w1)"
    by (simp add: latest_steps [OF assms(1)] io_bind_def io_return_def)
  thus ?thesis by (rule get_carbon_intensity_cases(1))
qed

lemma fetch_steps:
  assumes "client_get_carbon_intensity d z i w1 = (Inr ob, w2)"
      and "db_insert_carbon_intensity d ob w2 = (Inr b, w3)"
  shows "io_bind (client_get_carbon_intensity d z i)
           (\<lambda>fetched. io_bind (db_insert_carbon_intensity d fetched)
              (\<lambda>_. io_return fetched)) w1 = (Inr ob, w3)"
  using assms by (simp add: io_bind_def io_return_def)

lemma instant_miss_fetch:
  assumes "s \<noteq> []" "fromisoformat d (replace_Z s) = Some T"
      and "datetime_add T (timedelta_hours 1) = Some E"
      and "db_get_carbon_intensity_history d z T E w = (Inr [], w1)"
      and "client_get_carbon_intensity d z (Some s) w1 = (Inr ob, w2)"
      and "db_insert_carbon_intensity d ob w2 = (Inr b, w3)"
  shows "get_carbon_intensity d z (Some s) w = (Inr (intensity_response z ob (utcnow d w3)), w3)"
proof -
  from assms(4) fetch_steps [OF assms(5,6)]
  have "carbon_intensity_lookup d z (Some s) w = (Inr ob, w3)"
    by (simp add: instant_steps [OF assms(1-3)] io_bind_def)
  thus ?thesis by (rule get_carbon_intensity_cases(1))
qed

lemma latest_miss_fetch:
  assumes "dts = None \<or> dts = Some []"
      and "db_get_latest_carbon_intensity d z w = (Inr None, w1)"
      and "client_get_carbon_intensity d z None w1 = (Inr ob, w2)"
      and "db_insert_carbon_intensity d ob w2 = (Inr b, w3)"
  shows "get_carbon_intensity d z dts w = (Inr (intensity_response z ob (utcnow d w3)), w3)"
proof -
  from assms(2) fetch_steps [OF assms(3,4)]
  have "carbon_intensity_lookup d z dts w = (Inr ob, w3)"
    by (simp add: latest_steps [OF assms(1)] io_bind_def)
  thus ?thesis by (rule get_carbon_intensity_cases(1))
qed

lemma fetch_live:
  "io_bind (client_get_carbon_intensity (live incl fromiso parse provider) z i)
     (\<lambda>fetched. io_bind (db_insert_carbon_intensity (live incl fromiso parse provider) fetched)
        (\<lambda>_. io_return fetched)) w
   = (case client_getIntensity parse provider z i of
        Inl e \<Rightarrow> (Inl e, w\<lparr> remote_calls := remote_calls w @ [(z, i)] \<rparr>)
      | Inr ob \<Rightarrow> (Inr ob, fetched_world w z i ob))"
  by (simp add: live_sel io_bind_def io_return_def fetched_world_def split: sum.split)

lemma lookup_instant_miss:
  assumes "s \<noteq> []" "fromiso (replace_Z s) = Some T"
      and "datetime_add T (timedelta_hours 1) = Some E"
      and "getRange incl (db w) z T E = []"
  shows "carbon_intensity_lookup (live incl fromiso parse provider) z (Some s) w
           = (case client_getIntensity parse provider z (Some s) of
                Inl e \<Rightarrow> (Inl e, w\<lparr> remote_calls := remote_calls w @ [(z, Some s)] \<rparr>)
              | Inr ob \<Rightarrow> (Inr ob, fetched_world w z (Some s) ob))"
proof -
  have p: "fromisoformat (live incl fromiso parse provider) (replace_Z s) = Some T"
    using assms(2) by (simp add: live_sel)
  have "carbon_intensity_lookup (live incl fromiso parse provider) z (Some s) w
      = io_bind (client_get_carbon_intensity (live incl fromiso parse provider) z (Some s))
     (\<lambda>fetched. io_bind (db_insert_carbon_intensity (live incl fromiso parse provider) fetched)
        (\<lambda>_. io_return fetched)) w"
    using assms(4) by (simp add: instant_steps [OF assms(1) p assms(3)] live_sel(1) io_bind_def)
  thus ?thesis by (simp only: fetch_live)
qed

lemma lookup_latest_hit:
  assumes "dts = None \<or> dts = Some []" and "getLatest (db w) z = Some x"
  shows "carbon_intensity_lookup (live incl fromiso parse provider) z dts w = (Inr x, w)"
  using assms(2)
  by (simp add: latest_steps [OF assms(1)] live_sel(2) io_bind_def io_return_def)

lemma lookup_latest_miss:
  assumes "dts = None \<or> dts = Some []" and "getLatest (db w) z = None"
  shows "carbon_intensity_lookup (live incl fromiso parse provider) z dts w
           = (case client_getIntensity parse provider z None of
                Inl e \<Rightarrow> (Inl e, w\<lparr> remote_calls := remote_calls w @ [(z, None)] \<rparr>)
              | Inr ob \<Rightarrow> (Inr ob, fetched_world w z None ob))"
proof -
  have "carbon_intensity_lookup (live incl fromiso parse provider) z dts w
      = io_bind (client_get_carbon_intensity (live incl fromiso parse provider) z None)
     (\<lambda>fetched. io_bind (db_insert_carbon_intensity (live incl fromiso parse provider) fetched)
        (\<lambda>_. io_return fetched)) w"
    using assms(2) by (simp add: latest_steps [OF assms(1)] live_sel(2) io_bind_def)
  thus ?thesis by (simp only: fetch_live)
qed

lemma getRange_hit:
  assumes "r \<in> set (intensity_rows s)" "zone r = z" "T \<le> timestamp r"
      and "timestamp r < T + timedelta_hours 1"
  shows "\<exists>h rest. getRange incl s z T (T + timedelta_hours 1) = h # rest"
proof -
  have "r \<in> set (getRange incl s z T (T + timedelta_hours 1))"
    using assms by (simp add: getRange_def in_window_def)
  thus ?thesis by (cases "getRange incl s z T (T + timedelta_hours 1)") auto
qed

lemma stored_instant_hit:
  assumes "s \<noteq> []" "fromiso (replace_Z s) = Some T"
      and "datetime_add T (timedelta_hours 1) = Some (T + timedelta_hours 1)"
      and "\<exists>r \<in> set (intensity_rows (db v)).
             zone r = z \<and> T \<le> timestamp r \<and> timestamp r < T + timedelta_hours 1"
  shows "\<exists>h rest. getRange incl (db v) z T (T + timedelta_hours 1) = h # rest
           \<and> get_carbon_intensity (live incl fromiso parse provider) z (Some s) v
               = (Inr (intensity_response z h (now v)), v)"
proof -
  from assms(4) obtain r where "r \<in> set (intensity_rows (db v))" "zone r = z"
      "T \<le> timestamp r" "timestamp r < T + timedelta_hours 1" by blast
  from getRange_hit [OF this, of incl]
  obtain h rest where g: "getRange incl (db v) z T (T + timedelta_hours 1) = h # rest" by blast
  have "get_carbon_intensity (live incl fromiso parse provider) z (Some s) v
          = (Inr (intensity_response z h (utcnow (live incl fromiso parse provider) v)), v)"
    by (rule instant_hit [where T = T and rest = rest and E = "T + timedelta_hours 1"])
       (simp_all add: assms(1,2,3) live_sel g)
  with g show ?thesis by (simp add: live_sel(7))
qed

lemma stored_latest_hit:
  assumes "dts = None \<or> dts = Some []" "getLatest (db v) z = Some x"
  shows "get_carbon_intensity (live incl fromiso parse provider) z dts v
           = (Inr (intensity_response z x (now v)), v)"
proof -
  have "get_carbon_intensity (live incl fromiso parse provider) z dts v
          = (Inr (intensity_response z x (utcnow (live incl fromiso parse provider) v)), v)"
    by (rule latest_hit) (simp_all add: assms live_sel)
  thus ?thesis by (simp add: live_sel(7))
qed

text \<open>
  C1, as the code has it. The envelope of an answer is
  \<open>success = True\<close>, the record as payload, the message for the zone, and the time. For
  every database and every client: when the hour after the requested instant is within
  the range of \<open>datetime\<close> and the range read of that hour returns a non-empty list,
  \<open>get_carbon_intensity\<close> answers with its first record and the world is the one the
  read left, so neither the client nor the insert has run; the same holds when no instant
  is given (the query string is absent or empty) and the read of the latest observation
  returns one. Over the store: when it holds an observation of the zone with a timestamp
  in that hour, the answer is the first record of the store's range result, and the world
  is as it was: no call of the remote client, no write. Nothing looks at the clock, so
  the age of the stored observation plays no part. When the hour after the instant is out
  of range (the instant lies in the last hour of the year 9999), the addition raises and
  the answer is the 500, with the world as it was.
\<close>

theorem cache_precedence:
  "intensity_response z x t
     = \<lparr> success = True, data = Some (CarbonIntensityPayload x),
         message = Some (''Carbon intensity data for '' @ z), response_timestamp = t \<rparr>
   \<and> (s \<noteq> [] \<and> fromisoformat d (replace_Z s) = Some T
        \<and> datetime_add T (timedelta_hours 1) = Some E
        \<and> db_get_carbon_intensity_history d z T E w = (Inr (h # rest), w1) \<longrightarrow>
        get_carbon_intensity d z (Some s) w = (Inr (intensity_response z h (utcnow d w1)), w1))
   \<and> ((dts = None \<or> dts = Some [])
        \<and> db_get_latest_carbon_intensity d z w = (Inr (Some x), w1) \<longrightarrow>
        get_carbon_intensity d z dts w = (Inr (intensity_response z x (utcnow d w1)), w1))
   \<and> (s \<noteq> [] \<and> fromiso (replace_Z s) = Some T
        \<and> datetime_add T (timedelta_hours 1) = Some (T + timedelta_hours 1)
        \<and> (\<exists>r \<in> set (intensity_rows (db v)).
              zone r = z \<and> T \<le> timestamp r \<and> timestamp r < T + timedelta_hours 1) \<longrightarrow>
        (\<exists>h' rest'. getRange incl (db v) z T (T + timedelta_hours 1) = h' # rest'
           \<and> get_carbon_intensity (live incl fromiso parse provider) z (Some s) v
               = (Inr (intensity_response z h' (now v)), v)))
   \<and> ((dts = None \<or> dts = Some []) \<and> getLatest (db v) z = Some x \<longrightarrow>
        get_carbon_intensity (live incl fromiso parse provider) z dts v
          = (Inr (intensity_response z x (now v)), v))
   \<and> (s \<noteq> [] \<and> fromisoformat d (replace_Z s) = Some T
        \<and> datetime_add T (timedelta_hours 1) = None \<longrightarrow>
        get_carbon_intensity d z (Some s) w
          = (Inl (HTTPException 500 (''Failed to retrieve carbon intensity for '' @ z)), w))
   \<and> (datetime_add T (timedelta_hours 1) = None
        \<longleftrightarrow> T + 3600000000 < datetime_min \<or> datetime_max < T + 3600000000)"
proof (intro conjI impI)
  show "intensity_response z x t
     = \<lparr> success = True, data = Some (CarbonIntensityPayload x),
         message = Some (''Carbon intensity data for '' @ z), response_timestamp = t \<rparr>"
    by (simp add: intensity_response_def)
  show "get_carbon_intensity d z (Some s) w = (Inr (intensity_response z h (utcnow d w1)), w1)"
    if "s \<noteq> [] \<and> fromisoformat d (replace_Z s) = Some T
        \<and> datetime_add T (timedelta_hours 1) = Some E
        \<and> db_get_carbon_intensity_history d z T E w = (Inr (h # rest), w1)"
    using that instant_hit [of s d T E z w h rest w1] by simp
  show "get_carbon_intensity d z dts w = (Inr (intensity_response z x (utcnow d w1)), w1)"
    if "(dts = None \<or> dts = Some [])
        \<and> db_get_latest_carbon_intensity d z w = (Inr (Some x), w1)"
    using that latest_hit [of dts d z w x w1] by simp
  show "\<exists>h' rest'. getRange incl (db v) z T (T + timedelta_hours 1) = h' # rest'
           \<and> get_carbon_intensity (live incl fromiso parse provider) z (Some s) v
               = (Inr (intensity_response z h' (now v)), v)"
    if "s \<noteq> [] \<and> fromiso (replace_Z s) = Some T
        \<and> datetime_add T (timedelta_hours 1) = Some (T + timedelta_hours 1)
        \<and> (\<exists>r \<in> set (intensity_rows (db v)).
              zone r = z \<and> T \<le> timestamp r \<and> timestamp r < T + timedelta_hours 1)"
    using that stored_instant_hit [of s fromiso T v z incl parse provider] by simp
  show "get_carbon_intensity (live incl fromiso parse provider) z dts v
          = (Inr (intensity_response z x (now v)), v)"
    if "(dts = None \<or> dts = Some []) \<and> getLatest (db v) z = Some x"
    using that stored_latest_hit [of dts v z x incl fromiso parse provider] by simp
  show "get_carbon_intensity d z (Some s) w
          = (Inl (HTTPException 500 (''Failed to retrieve carbon intensity for '' @ z)), w)"
    if "s \<noteq> [] \<and> fromisoformat d (replace_Z s) = Some T
        \<and> datetime_add T (timedelta_hours 1) = None"
    using that instant_overflow [of s d T z w] by simp
  show "datetime_add T (timedelta_hours 1) = None
        \<longleftrightarrow> T + 3600000000 < datetime_min \<or> datetime_max < T + 3600000000"
    by (auto simp: datetime_add_def timedelta_hours_def)
qed

lemma replace_Z_1030: "replace_Z ''2024-01-15T10:30:00Z'' = ''2024-01-15T10:30:00+00:00''"
  by (simp add: replace_Z_def)

lemma add_hour_1030:
  "datetime_add t_1030 (timedelta_hours 1) = Some (t_1030 + timedelta_hours 1)"
  by (simp add: datetime_add_def datetime_min_def datetime_max_def t_1030_def
      timedelta_hours_def)

lemma add_hour_9999: "datetime_add t_9999 (timedelta_hours 1) = None"
  by (simp add: datetime_add_def datetime_min_def datetime_max_def t_9999_def
      timedelta_hours_def)

lemma replace_Z_9999: "replace_Z ''9999-12-31T23:30:00'' = ''9999-12-31T23:30:00''"
  by (simp add: replace_Z_def)

lemma world_us_rows: "intensity_rows (db world_us) = [observation ''US'' t_1030 250.5]"
  by (simp add: world_us_def upsertObservation_def empty_store_def)

lemma world_us_range:
  "getRange False (db world_us) ''US'' t_1030 (t_1030 + timedelta_hours 1)
     = [observation ''US'' t_1030 250.5]"
  by (simp add: getRange_def world_us_rows in_window_def observation_def timedelta_hours_def)

lemma world_us_latest: "getLatest (db world_us) ''US'' = Some (observation ''US'' t_1030 250.5)"
  by (simp add: getLatest_def world_us_rows observation_def)

text \<open>
  A stored observation more than eleven years old is served, with and without the
  instant; the world is unchanged and the client, here one whose provider is down, is not
  called. An instant in the last hour of the year 9999 is answered with the 500.
\<close>

theorem cache_precedence_witness:
  "get_carbon_intensity (live False iso_table utc_table provider_down) ''US''
       (Some ''2024-01-15T10:30:00Z'') world_us
     = (Inr \<lparr> success = True,
              data = Some (CarbonIntensityPayload (observation ''US'' t_1030 250.5)),
              message = Some ''Carbon intensity data for US'',
              response_timestamp = now world_us \<rparr>,
        world_us)
   \<and> get_carbon_intensity (live False iso_table utc_table provider_down) ''US'' None world_us
     = (Inr \<lparr> success = True,
              data = Some (CarbonIntensityPayload (observation ''US'' t_1030 250.5)),
              message = Some ''Carbon intensity data for US'',
              response_timestamp = now world_us \<rparr>,
        world_us)
   \<and> get_carbon_intensity (live False iso_9999 utc_table provider_down) ''US''
       (Some ''9999-12-31T23:30:00'') world_us
     = (Inl (HTTPException 500 ''Failed to retrieve carbon intensity for US''), world_us)
   \<and> remote_calls world_us = []"
proof -
  note t = cache_precedence [where s = "''2024-01-15T10:30:00Z''" and T = t_1030
      and E = "t_1030 + timedelta_hours 1"
      and d = "live False iso_table utc_table provider_down" and z = "''US''"
      and w = world_us and ?w1.0 = world_us and h = "observation ''US'' t_1030 250.5"
      and rest = "[]" and dts = None and x = "observation ''US'' t_1030 250.5"
      and fromiso = iso_table and v = world_us and incl = False and parse = utc_table
      and provider = provider_down and t = "now world_us"]
  from t [THEN conjunct1]
  have env: "intensity_response ''US'' (observation ''US'' t_1030 250.5) (now world_us)
      = \<lparr> success = True,
          data = Some (CarbonIntensityPayload (observation ''US'' t_1030 250.5)),
          message = Some ''Carbon intensity data for US'',
          response_timestamp = now world_us \<rparr>"
    by simp
  have h1: "''2024-01-15T10:30:00Z'' \<noteq> []
      \<and> fromisoformat (live False iso_table utc_table provider_down)
           (replace_Z ''2024-01-15T10:30:00Z'') = Some t_1030
      \<and> datetime_add t_1030 (timedelta_hours 1) = Some (t_1030 + timedelta_hours 1)
      \<and> db_get_carbon_intensity_history (live False iso_table utc_table provider_down)
           ''US'' t_1030 (t_1030 + timedelta_hours 1) world_us
          = (Inr [observation ''US'' t_1030 250.5], world_us)"
    by (simp add: live_sel replace_Z_1030 iso_table_def world_us_range add_hour_1030)
  from t [THEN conjunct2, THEN conjunct1] h1
  have g1: "get_carbon_intensity (live False iso_table utc_table provider_down) ''US''
       (Some ''2024-01-15T10:30:00Z'') world_us
     = (Inr (intensity_response ''US'' (observation ''US'' t_1030 250.5) (now world_us)),
        world_us)"
    by (simp add: live_sel(7))
  have h2: "(None = None \<or> None = Some [])
      \<and> db_get_latest_carbon_intensity (live False iso_table utc_table provider_down)
           ''US'' world_us
          = (Inr (Some (observation ''US'' t_1030 250.5)), world_us)"
    by (simp add: live_sel world_us_latest)
  from t [THEN conjunct2, THEN conjunct2, THEN conjunct1] h2
  have g2: "get_carbon_intensity (live False iso_table utc_table provider_down) ''US'' None
       world_us
     = (Inr (intensity_response ''US'' (observation ''US'' t_1030 250.5) (now world_us)),
        world_us)"
    by (simp add: live_sel(7))
  have h3: "''2024-01-15T10:30:00Z'' \<noteq> []
      \<and> iso_table (replace_Z ''2024-01-15T10:30:00Z'') = Some t_1030
      \<and> datetime_add t_1030 (timedelta_hours 1) = Some (t_1030 + timedelta_hours 1)
      \<and> (\<exists>r \<in> set (intensity_rows (db world_us)).
            zone r = ''US'' \<and> t_1030 \<le> timestamp r
              \<and> timestamp r < t_1030 + timedelta_hours 1)"
    by (simp add: replace_Z_1030 iso_table_def world_us_rows observation_def add_hour_1030)
       (simp add: timedelta_hours_def)
  from t [THEN conjunct2, THEN conjunct2, THEN conjunct2, THEN conjunct1] h3
  have "\<exists>h' rest'. getRange False (db world_us) ''US'' t_1030 (t_1030 + timedelta_hours 1)
            = h' # rest'
          \<and> get_carbon_intensity (live False iso_table utc_table provider_down) ''US''
              (Some ''2024-01-15T10:30:00Z'') world_us
            = (Inr (intensity_response ''US'' h' (now world_us)), world_us)"
    by simp
  have h4: "(None = None \<or> None = Some [])
      \<and> getLatest (db world_us) ''US'' = Some (observation ''US'' t_1030 250.5)"
    by (simp add: world_us_latest)
  from t [THEN conjunct2, THEN conjunct2, THEN conjunct2, THEN conjunct2, THEN conjunct1] h4
  have "get_carbon_intensity (live False iso_table utc_table provider_down) ''US'' None world_us
     = (Inr (intensity_response ''US'' (observation ''US'' t_1030 250.5) (now world_us)),
        world_us)"
    by simp
  have h5: "''9999-12-31T23:30:00'' \<noteq> []
      \<and> fromisoformat (live False iso_9999 utc_table provider_down)
           (replace_Z ''9999-12-31T23:30:00'') = Some t_9999
      \<and> datetime_add t_9999 (timedelta_hours 1) = None"
    by (simp add: live_sel replace_Z_9999 iso_9999_def add_hour_9999)
  from cache_precedence [where s = "''9999-12-31T23:30:00''" and T = t_9999
      and d = "live False iso_9999 utc_table provider_down" and z = "''US''"
      and w = world_us, THEN conjunct2, THEN conjunct2, THEN conjunct2, THEN conjunct2,
      THEN conjunct2, THEN conjunct1] h5
  have g3: "get_carbon_intensity (live False iso_9999 utc_table provider_down) ''US''
       (Some ''9999-12-31T23:30:00'') world_us
     = (Inl (HTTPException 500 ''Failed to retrieve carbon intensity for US''), world_us)"
    by simp
  have g4: "remote_calls world_us = []" by (simp add: world_us_def)
  from g1 g2 g3 g4 env show ?thesis by simp
qed

text \<open>
  C1 as stated fails in the last hour of the year 9999: the store holds an observation of
  the zone US at 23:30:00 of 9999-12-31, which lies in the hour that starts at the
  requested instant, and the request for that instant is answered with the 500, not with
  the stored observation.
\<close>

theorem cache_precedence_counterexample:
  "iso_9999 (replace_Z ''9999-12-31T23:30:00'') = Some t_9999
   \<and> intensity_rows (db world_9999) = [observation ''US'' t_9999 250.5]
   \<and> zone (observation ''US'' t_9999 250.5) = ''US''
   \<and> t_9999 \<le> timestamp (observation ''US'' t_9999 250.5)
   \<and> timestamp (observation ''US'' t_9999 250.5) < t_9999 + timedelta_hours 1
   \<and> get_carbon_intensity (live False iso_9999 utc_table provider_partial) ''US''
        (Some ''9999-12-31T23:30:00'') world_9999
      = (Inl (HTTPException 500 ''Failed to retrieve carbon intensity for US''), world_9999)"
proof -
  have "get_carbon_intensity (live False iso_9999 utc_table provider_partial) ''US''
        (Some ''9999-12-31T23:30:00'') world_9999
      = (Inl (HTTPException 500 (''Failed to retrieve carbon intensity for '' @ ''US'')),
         world_9999)"
    by (rule instant_overflow [where T = t_9999])
       (simp_all add: live_sel replace_Z_9999 iso_9999_def add_hour_9999)
  thus ?thesis
    by (simp add: replace_Z_9999 iso_9999_def world_9999_def observation_def
        timedelta_hours_def)
qed

subsection \<open>Read-through on a miss\<close>

lemma client_Inr_zone:
  assumes "client_getIntensity parse provider z i = Inr ob"
  shows "zone ob = z"
proof (cases "provider z i")
  case NetworkError
  with assms show ?thesis by (simp add: client_getIntensity_def split: if_splits)
next
  case (Reply st body)
  with assms have "normalize_intensity parse z body = Inr ob"
    by (auto simp: client_getIntensity_def split: if_splits)
  from normalize_Inr [OF this] show ?thesis by blast
qed

lemma getLatest_empty: "getLatest empty_store z = None"
  by (simp add: getLatest_def empty_store_def)

lemma world0_latest: "getLatest (db world0) z = None"
  by (simp add: world0_def getLatest_empty)

lemma fetched_world_sel:
  "db (fetched_world w z i ob) = snd (upsertObservation ob (db w))"
  "remote_calls (fetched_world w z i ob) = remote_calls w @ [(z, i)]"
  "now (fetched_world w z i ob) = now w"
  by (simp_all add: fetched_world_def)

lemma miss_instant:
  assumes "s \<noteq> []" "fromiso (replace_Z s) = Some T"
      and "datetime_add T (timedelta_hours 1) = Some (T + timedelta_hours 1)"
      and "getRange incl (db w) z T (T + timedelta_hours 1) = []"
  shows "remote_calls (snd (get_carbon_intensity (live incl fromiso parse provider) z (Some s) w))
           = remote_calls w @ [(z, Some s)]"
    and "client_getIntensity parse provider z (Some s) = Inr ob \<Longrightarrow>
         get_carbon_intensity (live incl fromiso parse provider) z (Some s) w
           = (Inr (intensity_response z ob (now w)), fetched_world w z (Some s) ob)"
proof -
  note l = lookup_instant_miss [where fromiso = fromiso and parse = parse
      and provider = provider, OF assms]
  show "remote_calls (snd (get_carbon_intensity (live incl fromiso parse provider) z (Some s) w))
           = remote_calls w @ [(z, Some s)]"
    by (cases "client_getIntensity parse provider z (Some s)")
       (simp_all add: l get_carbon_intensity_def fetched_world_sel)
  show "get_carbon_intensity (live incl fromiso parse provider) z (Some s) w
           = (Inr (intensity_response z ob (now w)), fetched_world w z (Some s) ob)"
    if "client_getIntensity parse provider z (Some s) = Inr ob"
    using that
    by (simp add: l get_carbon_intensity_cases(1) live_sel(7) fetched_world_sel)
qed

lemma miss_latest:
  assumes "dts = None \<or> dts = Some []" "getLatest (db w) z = None"
  shows "remote_calls (snd (get_carbon_intensity (live incl fromiso parse provider) z dts w))
           = remote_calls w @ [(z, None)]"
    and "client_getIntensity parse provider z None = Inr ob \<Longrightarrow>
         get_carbon_intensity (live incl fromiso parse provider) z dts w
           = (Inr (intensity_response z ob (now w)), fetched_world w z None ob)"
proof -
  note l = lookup_latest_miss [where fromiso = fromiso and parse = parse
      and provider = provider and incl = incl, OF assms]
  show "remote_calls (snd (get_carbon_intensity (live incl fromiso parse provider) z dts w))
           = remote_calls w @ [(z, None)]"
    by (cases "client_getIntensity parse provider z None")
       (simp_all add: l get_carbon_intensity_def fetched_world_sel)
  show "get_carbon_intensity (live incl fromiso parse provider) z dts w
           = (Inr (intensity_response z ob (now w)), fetched_world w z None ob)"
    if "client_getIntensity parse provider z None = Inr ob"
    using that
    by (simp add: l get_carbon_intensity_cases(1) live_sel(7) fetched_world_sel)
qed

lemma empty_store_fetch:
  assumes "dts = None \<or> dts = Some []" "db v = empty_store"
      and "client_getIntensity parse provider z None = Inr ob"
  shows "get_carbon_intensity (live incl fromiso parse provider) z dts v
          = (Inr (intensity_response z ob (now v)), fetched_world v z None ob)"
    and "intensity_rows (db (fetched_world v z None ob)) = [ob]"
    and "zone ob = z"
proof -
  from assms(2) have "getLatest (db v) z = None" by (simp add: getLatest_empty)
  with assms(1,3)
  show "get_carbon_intensity (live incl fromiso parse provider) z dts v
          = (Inr (intensity_response z ob (now v)), fetched_world v z None ob)"
    by (simp add: miss_latest(2))
  from assms(2) show "intensity_rows (db (fetched_world v z None ob)) = [ob]"
    by (simp add: fetched_world_sel upsertObservation_def empty_store_def)
  from assms(3) show "zone ob = z" by (rule client_Inr_zone)
qed

text \<open>
  C2, as the code has it. The envelope of an answer is \<open>success = True\<close>, the record as
  payload, the message for the zone, and the time. For every database and every client:
  when the hour after the requested instant is within the range of \<open>datetime\<close> and the
  range read of that hour is empty, or when no instant is given and there is no latest
  observation, \<open>get_carbon_intensity\<close> calls the client once, in the world the read
  left, hands the record the client returned to the insert, and, the insert reporting
  success, answers with that same record in the world the insert left. Over the store: on
  such a miss the client is called exactly once, with the zone and the datetime string of
  the request, whether or not the fetch succeeds; when it succeeds, the record is upserted
  into the store and is the record of the answer. From the empty store and without an
  instant, the store ends with exactly one observation, the fetched one, whose zone is the
  requested zone.
\<close>

theorem read_through_miss:
  "intensity_response z ob t
     = \<lparr> success = True, data = Some (CarbonIntensityPayload ob),
         message = Some (''Carbon intensity data for '' @ z), response_timestamp = t \<rparr>
   \<and> (s \<noteq> [] \<and> fromisoformat d (replace_Z s) = Some T
        \<and> datetime_add T (timedelta_hours 1) = Some E
        \<and> db_get_carbon_intensity_history d z T E w = (Inr [], w1)
        \<and> client_get_carbon_intensity d z (Some s) w1 = (Inr ob, w2)
        \<and> db_insert_carbon_intensity d ob w2 = (Inr True, w3) \<longrightarrow>
        get_carbon_intensity d z (Some s) w = (Inr (intensity_response z ob (utcnow d w3)), w3))
   \<and> ((dts = None \<or> dts = Some [])
        \<and> db_get_latest_carbon_intensity d z w = (Inr None, w1)
        \<and> client_get_carbon_intensity d z None w1 = (Inr ob, w2)
        \<and> db_insert_carbon_intensity d ob w2 = (Inr True, w3) \<longrightarrow>
        get_carbon_intensity d z dts w = (Inr (intensity_response z ob (utcnow d w3)), w3))
   \<and> (s \<noteq> [] \<and> fromiso (replace_Z s) = Some T
        \<and> datetime_add T (timedelta_hours 1) = Some (T + timedelta_hours 1)
        \<and> getRange incl (db v) z T (T + timedelta_hours 1) = [] \<longrightarrow>
        remote_calls (snd (get_carbon_intensity (live incl fromiso parse provider) z (Some s) v))
          = remote_calls v @ [(z, Some s)]
        \<and> (client_getIntensity parse provider z (Some s) = Inr ob \<longrightarrow>
             get_carbon_intensity (live incl fromiso parse provider) z (Some s) v
               = (Inr (intensity_response z ob (now v)), fetched_world v z (Some s) ob)))
   \<and> ((dts = None \<or> dts = Some []) \<and> getLatest (db v) z = None \<longrightarrow>
        remote_calls (snd (get_carbon_intensity (live incl fromiso parse provider) z dts v))
          = remote_calls v @ [(z, None)]
        \<and> (client_getIntensity parse provider z None = Inr ob \<longrightarrow>
             get_carbon_intensity (live incl fromiso parse provider) z dts v
               = (Inr (intensity_response z ob (now v)), fetched_world v z None ob)))
   \<and> ((dts = None \<or> dts = Some []) \<and> db v = empty_store
        \<and> client_getIntensity parse provider z None = Inr ob \<longrightarrow>
        get_carbon_intensity (live incl fromiso parse provider) z dts v
          = (Inr (intensity_response z ob (now v)), fetched_world v z None ob)
        \<and> intensity_rows (db (fetched_world v z None ob)) = [ob]
        \<and> zone ob = z
        \<and> remote_calls (fetched_world v z None ob) = remote_calls v @ [(z, None)])
   \<and> db (fetched_world v z i ob) = snd (upsertObservation ob (db v))
   \<and> remote_calls (fetched_world v z i ob) = remote_calls v @ [(z, i)]
   \<and> now (fetched_world v z i ob) = now v"
proof (intro conjI impI)
  show "intensity_response z ob t
     = \<lparr> success = True, data = Some (CarbonIntensityPayload ob),
         message = Some (''Carbon intensity data for '' @ z), response_timestamp = t \<rparr>"
    by (simp add: intensity_response_def)
  show "get_carbon_intensity d z (Some s) w = (Inr (intensity_response z ob (utcnow d w3)), w3)"
    if "s \<noteq> [] \<and> fromisoformat d (replace_Z s) = Some T
        \<and> datetime_add T (timedelta_hours 1) = Some E
        \<and> db_get_carbon_intensity_history d z T E w = (Inr [], w1)
        \<and> client_get_carbon_intensity d z (Some s) w1 = (Inr ob, w2)
        \<and> db_insert_carbon_intensity d ob w2 = (Inr True, w3)"
    using that instant_miss_fetch [of s d T E z w w1 ob w2 True w3] by simp
  show "get_carbon_intensity d z dts w = (Inr (intensity_response z ob (utcnow d w3)), w3)"
    if "(dts = None \<or> dts = Some [])
        \<and> db_get_latest_carbon_intensity d z w = (Inr None, w1)
        \<and> client_get_carbon_intensity d z None w1 = (Inr ob, w2)
        \<and> db_insert_carbon_intensity d ob w2 = (Inr True, w3)"
    using that latest_miss_fetch [of dts d z w w1 ob w2 True w3] by simp
next
  assume a: "s \<noteq> [] \<and> fromiso (replace_Z s) = Some T
        \<and> datetime_add T (timedelta_hours 1) = Some (T + timedelta_hours 1)
        \<and> getRange incl (db v) z T (T + timedelta_hours 1) = []"
  thus "remote_calls (snd (get_carbon_intensity (live incl fromiso parse provider) z (Some s) v))
       = remote_calls v @ [(z, Some s)]"
    by (simp add: miss_instant(1))
  show "get_carbon_intensity (live incl fromiso parse provider) z (Some s) v
            = (Inr (intensity_response z ob (now v)), fetched_world v z (Some s) ob)"
    if "client_getIntensity parse provider z (Some s) = Inr ob"
    using a that by (simp add: miss_instant(2))
next
  assume b: "(dts = None \<or> dts = Some []) \<and> getLatest (db v) z = None"
  thus "remote_calls (snd (get_carbon_intensity (live incl fromiso parse provider) z dts v))
          = remote_calls v @ [(z, None)]"
    by (simp add: miss_latest(1))
  show "get_carbon_intensity (live incl fromiso parse provider) z dts v
               = (Inr (intensity_response z ob (now v)), fetched_world v z None ob)"
    if "client_getIntensity parse provider z None = Inr ob"
    using b that by (simp add: miss_latest(2))
next
  assume c: "(dts = None \<or> dts = Some []) \<and> db v = empty_store
        \<and> client_getIntensity parse provider z None = Inr ob"
  hence c1: "dts = None \<or> dts = Some []" and c2: "db v = empty_store"
    and c3: "client_getIntensity parse provider z None = Inr ob" by simp_all
  from empty_store_fetch(1) [OF c1 c2 c3]
  show "get_carbon_intensity (live incl fromiso parse provider) z dts v
          = (Inr (intensity_response z ob (now v)), fetched_world v z None ob)" .
  from empty_store_fetch(2) [OF c1 c2 c3]
  show "intensity_rows (db (fetched_world v z None ob)) = [ob]" .
  from empty_store_fetch(3) [OF c1 c2 c3] show "zone ob = z" .
  show "remote_calls (fetched_world v z None ob) = remote_calls v @ [(z, None)]"
    by (simp add: fetched_world_sel)
next
  show "db (fetched_world v z i ob) = snd (upsertObservation ob (db v))"
    by (simp add: fetched_world_sel)
  show "remote_calls (fetched_world v z i ob) = remote_calls v @ [(z, i)]"
    by (simp add: fetched_world_sel)
  show "now (fetched_world v z i ob) = now v"
    by (simp add: fetched_world_sel)
qed

lemma client_partial_US:
  "client_getIntensity utc_table provider_partial ''US'' None
     = Inr (observation ''US'' t_1030 250.5)"
  by (simp add: client_getIntensity_def provider_partial_def normalize_partial)

lemma client_partial_US_instant:
  "client_getIntensity utc_table provider_partial ''US'' (Some ''2024-01-15T10:30:00Z'')
     = Inr (observation ''US'' t_1030 250.5)"
  by (simp add: client_getIntensity_def provider_partial_def normalize_partial utc_table_def)

text \<open>
  The zone US against the empty store, without and with an instant: one call of the
  client, one stored observation; and a provider that is down, where the one call is made
  and fails.
\<close>

theorem read_through_miss_witness:
  "get_carbon_intensity (live False iso_table utc_table provider_partial) ''US'' None world0
     = (Inr \<lparr> success = True,
              data = Some (CarbonIntensityPayload (observation ''US'' t_1030 250.5)),
              message = Some ''Carbon intensity data for US'',
              response_timestamp = t_1030 \<rparr>,
        world_fetched_us None)
   \<and> get_carbon_intensity (live False iso_table utc_table provider_partial) ''US''
        (Some ''2024-01-15T10:30:00Z'') world0
     = (Inr \<lparr> success = True,
              data = Some (CarbonIntensityPayload (observation ''US'' t_1030 250.5)),
              message = Some ''Carbon intensity data for US'',
              response_timestamp = t_1030 \<rparr>,
        world_fetched_us (Some ''2024-01-15T10:30:00Z''))
   \<and> remote_calls (snd (get_carbon_intensity (live False iso_table utc_table provider_down)
        ''US'' None world0)) = [(''US'', None)]"
proof -
  note t = read_through_miss [where s = "''2024-01-15T10:30:00Z''" and T = t_1030
      and E = "t_1030 + timedelta_hours 1"
      and d = "live False iso_table utc_table provider_partial" and z = "''US''"
      and w = world0 and ?w1.0 = world0
      and ob = "observation ''US'' t_1030 250.5"
      and dts = None and fromiso = iso_table and v = world0 and incl = False
      and parse = utc_table and t = t_1030]
  note tp = t [where provider = provider_partial
      and ?w2.0 = "world0\<lparr> remote_calls := [(''US'', None)] \<rparr>"
      and ?w3.0 = "world_fetched_us None"]
  note ti = t [where provider = provider_partial
      and ?w2.0 = "world0\<lparr> remote_calls := [(''US'', Some ''2024-01-15T10:30:00Z'')] \<rparr>"
      and ?w3.0 = "world_fetched_us (Some ''2024-01-15T10:30:00Z'')"]
  from tp [THEN conjunct1]
  have env: "intensity_response ''US'' (observation ''US'' t_1030 250.5) t_1030
      = \<lparr> success = True,
          data = Some (CarbonIntensityPayload (observation ''US'' t_1030 250.5)),
          message = Some ''Carbon intensity data for US'',
          response_timestamp = t_1030 \<rparr>"
    by simp
  have now0: "now world0 = t_1030" by (simp add: world0_def)
  have calls0: "remote_calls world0 = []" by (simp add: world0_def)
  have range0: "getRange False (db world0) ''US'' t_1030 (t_1030 + timedelta_hours 1) = []"
    by (simp add: world0_def empty_store_def getRange_def)
  have h1: "''2024-01-15T10:30:00Z'' \<noteq> []
      \<and> fromisoformat (live False iso_table utc_table provider_partial)
           (replace_Z ''2024-01-15T10:30:00Z'') = Some t_1030
      \<and> datetime_add t_1030 (timedelta_hours 1) = Some (t_1030 + timedelta_hours 1)
      \<and> db_get_carbon_intensity_history (live False iso_table utc_table provider_partial)
           ''US'' t_1030 (t_1030 + timedelta_hours 1) world0 = (Inr [], world0)
      \<and> client_get_carbon_intensity (live False iso_table utc_table provider_partial)
           ''US'' (Some ''2024-01-15T10:30:00Z'') world0
          = (Inr (observation ''US'' t_1030 250.5),
             world0\<lparr> remote_calls := [(''US'', Some ''2024-01-15T10:30:00Z'')] \<rparr>)
      \<and> db_insert_carbon_intensity (live False iso_table utc_table provider_partial)
           (observation ''US'' t_1030 250.5)
           (world0\<lparr> remote_calls := [(''US'', Some ''2024-01-15T10:30:00Z'')] \<rparr>)
          = (Inr True, world_fetched_us (Some ''2024-01-15T10:30:00Z''))"
    by (simp add: live_sel replace_Z_1030 iso_table_def range0 client_partial_US_instant calls0
          add_hour_1030)
       (simp add: world0_def world_fetched_us_def upsertObservation_def empty_store_def)
  from ti [THEN conjunct2, THEN conjunct1] h1
  have g1: "get_carbon_intensity (live False iso_table utc_table provider_partial) ''US''
        (Some ''2024-01-15T10:30:00Z'') world0
     = (Inr (intensity_response ''US'' (observation ''US'' t_1030 250.5) t_1030),
        world_fetched_us (Some ''2024-01-15T10:30:00Z''))"
    by (simp add: live_sel(7) world_fetched_us_def)
  have h2: "(None = None \<or> None = Some [])
      \<and> db_get_latest_carbon_intensity (live False iso_table utc_table provider_partial)
           ''US'' world0 = (Inr None, world0)
      \<and> client_get_carbon_intensity (live False iso_table utc_table provider_partial)
           ''US'' None world0
          = (Inr (observation ''US'' t_1030 250.5),
             world0\<lparr> remote_calls := [(''US'', None)] \<rparr>)
      \<and> db_insert_carbon_intensity (live False iso_table utc_table provider_partial)
           (observation ''US'' t_1030 250.5) (world0\<lparr> remote_calls := [(''US'', None)] \<rparr>)
          = (Inr True, world_fetched_us None)"
    by (simp add: live_sel world0_latest client_partial_US calls0)
       (simp add: world0_def world_fetched_us_def upsertObservation_def empty_store_def)
  from tp [THEN conjunct2, THEN conjunct2, THEN conjunct1] h2
  have g2: "get_carbon_intensity (live False iso_table utc_table provider_partial) ''US'' None
        world0
     = (Inr (intensity_response ''US'' (observation ''US'' t_1030 250.5) t_1030),
        world_fetched_us None)"
    by (simp add: live_sel(7) world_fetched_us_def)
  have h3: "''2024-01-15T10:30:00Z'' \<noteq> []
      \<and> iso_table (replace_Z ''2024-01-15T10:30:00Z'') = Some t_1030
      \<and> datetime_add t_1030 (timedelta_hours 1) = Some (t_1030 + timedelta_hours 1)
      \<and> getRange False (db world0) ''US'' t_1030 (t_1030 + timedelta_hours 1) = []"
    by (simp add: replace_Z_1030 iso_table_def range0 add_hour_1030)
  from tp [THEN conjunct2, THEN conjunct2, THEN conjunct2, THEN conjunct1] h3
      client_partial_US_instant
  have "get_carbon_intensity (live False iso_table utc_table provider_partial) ''US''
        (Some ''2024-01-15T10:30:00Z'') world0
     = (Inr (intensity_response ''US'' (observation ''US'' t_1030 250.5) (now world0)),
        fetched_world world0 ''US'' (Some ''2024-01-15T10:30:00Z'')
          (observation ''US'' t_1030 250.5))"
    by simp
  have h5: "(None = None \<or> None = Some []) \<and> db world0 = empty_store
      \<and> client_getIntensity utc_table provider_partial ''US'' None
          = Inr (observation ''US'' t_1030 250.5)"
    by (simp add: world0_def client_partial_US)
  from tp [THEN conjunct2, THEN conjunct2, THEN conjunct2, THEN conjunct2, THEN conjunct2,
      THEN conjunct1] h5
  have "intensity_rows (db (fetched_world world0 ''US'' None
           (observation ''US'' t_1030 250.5))) = [observation ''US'' t_1030 250.5]"
    by simp
  have h4: "(None = None \<or> None = Some []) \<and> getLatest (db world0) ''US'' = None"
    by (simp add: world0_latest)
  from t [where provider = provider_down, THEN conjunct2, THEN conjunct2, THEN conjunct2,
      THEN conjunct2, THEN conjunct1] h4
  have "remote_calls (snd (get_carbon_intensity (live False iso_table utc_table provider_down)
        ''US'' None world0)) = remote_calls world0 @ [(''US'', None)]"
    by simp
  hence g3: "remote_calls (snd (get_carbon_intensity (live False iso_table utc_table
        provider_down) ''US'' None world0)) = [(''US'', None)]"
    by (simp add: calls0)
  from g1 g2 g3 env show ?thesis by simp
qed

text \<open>
  C2 as stated fails in two places. At an instant in the last hour of the year 9999, with
  the empty store, the request is answered with the 500 and the client is not called at
  all. And when the insert reports failure and writes nothing, the fetched observation is
  still returned in a successful envelope, while the store stays empty: the result of
  \<open>db.insert_carbon_intensity(data)\<close> is not looked at.
\<close>

theorem read_through_miss_counterexample:
  "iso_9999 (replace_Z ''9999-12-31T23:30:00'') = Some t_9999
   \<and> intensity_rows (db world0) = []
   \<and> get_carbon_intensity (live False iso_9999 utc_table provider_partial) ''US''
        (Some ''9999-12-31T23:30:00'') world0
      = (Inl (HTTPException 500 ''Failed to retrieve carbon intensity for US''), world0)
   \<and> remote_calls world0 = []
   \<and> get_carbon_intensity insert_refused ''US'' None world0
      = (Inr \<lparr> success = True,
               data = Some (CarbonIntensityPayload (observation ''US'' t_1030 250.5)),
               message = Some ''Carbon intensity data for US'',
               response_timestamp = t_1030 \<rparr>,
         world0\<lparr> remote_calls := [(''US'', None)] \<rparr>)
   \<and> intensity_rows (db (world0\<lparr> remote_calls := [(''US'', None)] \<rparr>)) = []"
proof -
  have a: "get_carbon_intensity (live False iso_9999 utc_table provider_partial) ''US''
        (Some ''9999-12-31T23:30:00'') world0
      = (Inl (HTTPException 500 (''Failed to retrieve carbon intensity for '' @ ''US'')),
         world0)"
    by (rule instant_overflow [where T = t_9999])
       (simp_all add: live_sel replace_Z_9999 iso_9999_def add_hour_9999)
  have b: "get_carbon_intensity insert_refused ''US'' None world0
      = (Inr (intensity_response ''US'' (observation ''US'' t_1030 250.5)
               (utcnow insert_refused (world0\<lparr> remote_calls := [(''US'', None)] \<rparr>))),
         world0\<lparr> remote_calls := [(''US'', None)] \<rparr>)"
    by (rule latest_miss_fetch [where ?w1.0 = world0
          and ?w2.0 = "world0\<lparr> remote_calls := [(''US'', None)] \<rparr>" and b = False])
       (simp_all add: insert_refused_def live_sel world0_latest client_partial_US,
        simp add: world0_def)
  from a b show ?thesis
    by (simp add: replace_Z_9999 iso_9999_def world0_def empty_store_def
        intensity_response_def insert_refused_def live_sel(7))
qed

subsection \<open>History is a read\<close>

lemma history_lookup_frame:
  "history_lookup (d\<lparr> client_get_carbon_intensity := c, db_insert_carbon_intensity := ins \<rparr>)
       z sd ed w
     = history_lookup d z sd ed w"
  by (simp add: history_lookup_def split: option.split)

lemma history_lookup_live:
  "history_lookup (live incl fromiso parse provider) z sd ed w
     = (case fromiso (replace_Z sd) of
          None \<Rightarrow> (Inl ValueError, w)
        | Some a \<Rightarrow>
            (case fromiso (replace_Z ed) of
               None \<Rightarrow> (Inl ValueError, w)
             | Some b \<Rightarrow> (Inr (getRange incl (db w) z a b), w)))"
  by (simp add: history_lookup_def live_sel io_raise_def split: option.split)

text \<open>
  C7. Over the store, \<open>get_carbon_intensity_history\<close> leaves the world as it was: no call
  of the remote client and no write to the store. For every database and every client, it
  does not depend on the client or on the insert method at all (replacing both changes
  nothing), and the world it leaves is the one its single range read left. When both
  dates parse, the answer is the store's range result, empty or not.
\<close>

theorem history_pure_read:
  "snd (get_carbon_intensity_history (live incl fromiso parse provider) z sd ed w) = w
   \<and> get_carbon_intensity_history
        (d\<lparr> client_get_carbon_intensity := c, db_insert_carbon_intensity := ins \<rparr>) z sd ed w'
       = get_carbon_intensity_history d z sd ed w'
   \<and> (fromiso (replace_Z sd) = Some a \<and> fromiso (replace_Z ed) = Some b \<longrightarrow>
        get_carbon_intensity_history (live incl fromiso parse provider) z sd ed w
          = (Inr (history_response z (getRange incl (db w) z a b) (now w)), w))
   \<and> (fromisoformat d (replace_Z sd) = Some a \<and> fromisoformat d (replace_Z ed) = Some b
        \<and> db_get_carbon_intensity_history d z a b w' = (res, w1) \<longrightarrow>
        snd (get_carbon_intensity_history d z sd ed w') = w1)"
proof (intro conjI impI)
  show "snd (get_carbon_intensity_history d z sd ed w') = w1"
    if "fromisoformat d (replace_Z sd) = Some a \<and> fromisoformat d (replace_Z ed) = Some b
        \<and> db_get_carbon_intensity_history d z a b w' = (res, w1)"
    using that
    by (cases res) (simp_all add: get_carbon_intensity_history_def history_lookup_def)
  show "snd (get_carbon_intensity_history (live incl fromiso parse provider) z sd ed w) = w"
    by (simp add: get_carbon_intensity_history_def history_lookup_live split: option.split)
  show "get_carbon_intensity_history
        (d\<lparr> client_get_carbon_intensity := c, db_insert_carbon_intensity := ins \<rparr>) z sd ed w'
       = get_carbon_intensity_history d z sd ed w'"
    by (simp add: get_carbon_intensity_history_def history_lookup_frame
        split: prod.split sum.split)
  show "get_carbon_intensity_history (live incl fromiso parse provider) z sd ed w
          = (Inr (history_response z (getRange incl (db w) z a b) (now w)), w)"
    if "fromiso (replace_Z sd) = Some a \<and> fromiso (replace_Z ed) = Some b"
    using that
    by (simp add: get_carbon_intensity_history_def history_lookup_live history_response_def
        live_sel(7))
qed

text \<open>The history of the zone US from the empty store, and from a store with one record.\<close>

theorem history_pure_read_witness:
  "get_carbon_intensity_history (live True iso_table utc_table provider_partial) ''US''
       ''2024-01-15T10:30:00Z'' ''2024-01-15T10:30:00Z'' world0
     = (Inr (history_response ''US'' [] t_1030), world0)
   \<and> get_carbon_intensity_history (live True iso_table utc_table provider_partial) ''US''
       ''2024-01-15T10:30:00Z'' ''2024-01-15T10:30:00Z'' world_us
     = (Inr (history_response ''US'' [observation ''US'' t_1030 250.5] (now world_us)), world_us)"
proof -
  have h: "iso_table (replace_Z ''2024-01-15T10:30:00Z'') = Some t_1030
      \<and> iso_table (replace_Z ''2024-01-15T10:30:00Z'') = Some t_1030"
    by (simp add: replace_Z_1030 iso_table_def)
  from history_pure_read [where incl = True and fromiso = iso_table and parse = utc_table
      and provider = provider_partial and z = "''US''" and sd = "''2024-01-15T10:30:00Z''"
      and ed = "''2024-01-15T10:30:00Z''" and w = world0 and a = t_1030 and b = t_1030
      and d = "live True iso_table utc_table provider_partial" and w' = world0
      and c = "\<lambda>z i. io_raise RemoteUnavailable"
      and ins = "\<lambda>ob. io_raise StorageFailure"
      and res = "Inr (getRange True (db world0) ''US'' t_1030 t_1030)" and ?w1.0 = world0] h
  have "get_carbon_intensity_history (live True iso_table utc_table provider_partial) ''US''
       ''2024-01-15T10:30:00Z'' ''2024-01-15T10:30:00Z'' world0
     = (Inr (history_response ''US'' (getRange True (db world0) ''US'' t_1030 t_1030)
          (now world0)), world0)"
    by blast
  hence a: "get_carbon_intensity_history (live True iso_table utc_table provider_partial) ''US''
       ''2024-01-15T10:30:00Z'' ''2024-01-15T10:30:00Z'' world0
     = (Inr (history_response ''US'' [] t_1030), world0)"
    by (simp add: world0_def empty_store_def getRange_def)
  from history_pure_read [where incl = True and fromiso = iso_table and parse = utc_table
      and provider = provider_partial and z = "''US''" and sd = "''2024-01-15T10:30:00Z''"
      and ed = "''2024-01-15T10:30:00Z''" and w = world_us and a = t_1030 and b = t_1030
      and d = "live True iso_table utc_table provider_partial" and w' = world_us
      and c = "\<lambda>z i. io_raise RemoteUnavailable"
      and ins = "\<lambda>ob. io_raise StorageFailure"
      and res = "Inr (getRange True (db world_us) ''US'' t_1030 t_1030)" and ?w1.0 = world_us] h
  have "get_carbon_intensity_history (live True iso_table utc_table provider_partial) ''US''
       ''2024-01-15T10:30:00Z'' ''2024-01-15T10:30:00Z'' world_us
     = (Inr (history_response ''US'' (getRange True (db world_us) ''US'' t_1030 t_1030)
          (now world_us)), world_us)"
    by blast
  hence b: "get_carbon_intensity_history (live True iso_table utc_table provider_partial) ''US''
       ''2024-01-15T10:30:00Z'' ''2024-01-15T10:30:00Z'' world_us
     = (Inr (history_response ''US'' [observation ''US'' t_1030 250.5] (now world_us)),
        world_us)"
    by (simp add: getRange_def world_us_rows in_window_def observation_def)
  from a b show ?thesis by simp
qed

subsection \<open>Failures\<close>

lemma health_cases:
  "db_get_zones d w = (Inl e, w1)
     \<Longrightarrow> health_check d w = (Inl (HTTPException 503 ''Service unhealthy''), w1)"
  "db_get_zones d w = (Inr zones, w1)
     \<Longrightarrow> health_check d w = (Inr (health_response (length zones) (utcnow d w1)), w1)"
  by (simp_all add: health_check_def)

lemma zones_cases:
  "db_get_zones d w = (Inl e, w1)
     \<Longrightarrow> get_zones d w = (Inl (HTTPException 500 ''Failed to retrieve zones''), w1)"
  "db_get_zones d w = (Inr zones, w1)
     \<Longrightarrow> get_zones d w = (Inr (zones_response zones (utcnow d w1)), w1)"
  by (simp_all add: get_zones_def)

lemma average_cases:
  "db_get_average_carbon_intensity d z h w = (Inl e, w1)
     \<Longrightarrow> get_average_carbon_intensity d z h w
           = (Inl (HTTPException 500 (''Failed to calculate average for '' @ z)), w1)"
  "db_get_average_carbon_intensity d z h w = (Inr None, w1)
     \<Longrightarrow> get_average_carbon_intensity d z h w
           = (Inl (HTTPException 404 (''No data available for '' @ z)), w1)"
  "db_get_average_carbon_intensity d z h w = (Inr (Some a), w1)
     \<Longrightarrow> get_average_carbon_intensity d z h w
           = (Inr (average_response z a h (utcnow d w1)), w1)"
  by (simp_all add: get_average_carbon_intensity_def)

lemma history_cases:
  "history_lookup d z sd ed w = (Inl e, w1)
     \<Longrightarrow> get_carbon_intensity_history d z sd ed w
           = (Inl (HTTPException 500 (''Failed to retrieve history for '' @ z)), w1)"
  "history_lookup d z sd ed w = (Inr xs, w1)
     \<Longrightarrow> get_carbon_intensity_history d z sd ed w
           = (Inr (history_response z xs (utcnow d w1)), w1)"
  by (simp_all add: get_carbon_intensity_history_def)

lemma intensity_outcomes:
  "(\<exists>x. fst (get_carbon_intensity d z dts w)
          = Inr (intensity_response z x (utcnow d (snd (get_carbon_intensity d z dts w)))))
   \<or> fst (get_carbon_intensity d z dts w)
       = Inl (HTTPException 500 (''Failed to retrieve carbon intensity for '' @ z))"
proof (cases "carbon_intensity_lookup d z dts w")
  case (Pair res w')
  show ?thesis
  proof (cases res)
    case (Inl e)
    with Pair show ?thesis by (simp add: get_carbon_intensity_cases(2))
  next
    case (Inr x)
    with Pair show ?thesis by (auto simp: get_carbon_intensity_cases(1))
  qed
qed

lemma history_outcomes:
  "(\<exists>xs. fst (get_carbon_intensity_history d z sd ed w)
          = Inr (history_response z xs (utcnow d (snd (get_carbon_intensity_history d z sd ed w)))))
   \<or> fst (get_carbon_intensity_history d z sd ed w)
       = Inl (HTTPException 500 (''Failed to retrieve history for '' @ z))"
proof (cases "history_lookup d z sd ed w")
  case (Pair res w')
  show ?thesis
  proof (cases res)
    case (Inl e)
    with Pair show ?thesis by (simp add: history_cases(1))
  next
    case (Inr x)
    with Pair show ?thesis by (auto simp: history_cases(2))
  qed
qed

lemma average_outcomes:
  "(\<exists>a. fst (get_average_carbon_intensity d z h w)
          = Inr (average_response z a h (utcnow d (snd (get_average_carbon_intensity d z h w)))))
   \<or> fst (get_average_carbon_intensity d z h w)
       = Inl (HTTPException 500 (''Failed to calculate average for '' @ z))
   \<or> fst (get_average_carbon_intensity d z h w)
       = Inl (HTTPException 404 (''No data available for '' @ z))"
proof (cases "db_get_average_carbon_intensity d z h w")
  case (Pair res w')
  show ?thesis
  proof (cases res)
    case (Inl e)
    with Pair show ?thesis by (simp add: average_cases(1))
  next
    case (Inr avg)
    with Pair show ?thesis by (cases avg) (auto simp: average_cases)
  qed
qed

lemma zones_outcomes:
  "(\<exists>zs. fst (get_zones d w) = Inr (zones_response zs (utcnow d (snd (get_zones d w)))))
   \<or> fst (get_zones d w) = Inl (HTTPException 500 ''Failed to retrieve zones'')"
proof (cases "db_get_zones d w")
  case (Pair res w')
  show ?thesis by (cases res) (use Pair in \<open>auto simp: zones_cases\<close>)
qed

lemma health_outcomes:
  "(\<exists>n. fst (health_check d w) = Inr (health_response n (utcnow d (snd (health_check d w)))))
   \<or> fst (health_check d w) = Inl (HTTPException 503 ''Service unhealthy'')"
proof (cases "db_get_zones d w")
  case (Pair res w')
  show ?thesis by (cases res) (use Pair in \<open>auto simp: health_cases\<close>)
qed

lemma raise_500:
  "carbon_intensity_lookup d z dts w = (Inl e, w1)
     \<Longrightarrow> get_carbon_intensity d z dts w
           = (Inl (HTTPException 500 (''Failed to retrieve carbon intensity for '' @ z)), w1)"
  by (rule get_carbon_intensity_cases(2))

lemma instant_read_raises:
  assumes "s \<noteq> []" "fromisoformat d (replace_Z s) = Some T"
      and "datetime_add T (timedelta_hours 1) = Some E"
      and "db_get_carbon_intensity_history d z T E w = (Inl e, w1)"
  shows "get_carbon_intensity d z (Some s) w
           = (Inl (HTTPException 500 (''Failed to retrieve carbon intensity for '' @ z)), w1)"
  by (rule raise_500) (simp add: instant_steps [OF assms(1-3)] io_bind_def assms(4))

lemma instant_client_raises:
  assumes "s \<noteq> []" "fromisoformat d (replace_Z s) = Some T"
      and "datetime_add T (timedelta_hours 1) = Some E"
      and "db_get_carbon_intensity_history d z T E w = (Inr [], w1)"
      and "client_get_carbon_intensity d z (Some s) w1 = (Inl e, w2)"
  shows "get_carbon_intensity d z (Some s) w
           = (Inl (HTTPException 500 (''Failed to retrieve carbon intensity for '' @ z)), w2)"
  by (rule raise_500) (simp add: instant_steps [OF assms(1-3)] io_bind_def assms(4,5))

lemma instant_insert_raises:
  assumes "s \<noteq> []" "fromisoformat d (replace_Z s) = Some T"
      and "datetime_add T (timedelta_hours 1) = Some E"
      and "db_get_carbon_intensity_history d z T E w = (Inr [], w1)"
      and "client_get_carbon_intensity d z (Some s) w1 = (Inr ob, w2)"
      and "db_insert_carbon_intensity d ob w2 = (Inl e, w3)"
  shows "get_carbon_intensity d z (Some s) w
           = (Inl (HTTPException 500 (''Failed to retrieve carbon intensity for '' @ z)), w3)"
  by (rule raise_500) (simp add: instant_steps [OF assms(1-3)] io_bind_def assms(4,5,6))

lemma instant_parse_raises:
  assumes "s \<noteq> []" "fromisoformat d (replace_Z s) = None"
  shows "get_carbon_intensity d z (Some s) w
           = (Inl (HTTPException 500 (''Failed to retrieve carbon intensity for '' @ z)), w)"
proof -
  from assms(1) obtain c cs where s: "s = c # cs" by (cases s) auto
  with assms(2) have "carbon_intensity_lookup d z (Some s) w = (Inl ValueError, w)"
    by (simp add: carbon_intensity_lookup_def io_raise_def)
  thus ?thesis by (rule raise_500)
qed

lemma latest_read_raises:
  assumes "dts = None \<or> dts = Some []"
      and "db_get_latest_carbon_intensity d z w = (Inl e, w1)"
  shows "get_carbon_intensity d z dts w
           = (Inl (HTTPException 500 (''Failed to retrieve carbon intensity for '' @ z)), w1)"
  by (rule raise_500) (simp add: latest_steps [OF assms(1)] io_bind_def assms(2))

lemma latest_client_raises:
  assumes "dts = None \<or> dts = Some []"
      and "db_get_latest_carbon_intensity d z w = (Inr None, w1)"
      and "client_get_carbon_intensity d z None w1 = (Inl e, w2)"
  shows "get_carbon_intensity d z dts w
           = (Inl (HTTPException 500 (''Failed to retrieve carbon intensity for '' @ z)), w2)"
  by (rule raise_500) (simp add: latest_steps [OF assms(1)] io_bind_def assms(2,3))

lemma latest_insert_raises:
  assumes "dts = None \<or> dts = Some []"
      and "db_get_latest_carbon_intensity d z w = (Inr None, w1)"
      and "client_get_carbon_intensity d z None w1 = (Inr ob, w2)"
      and "db_insert_carbon_intensity d ob w2 = (Inl e, w3)"
  shows "get_carbon_intensity d z dts w
           = (Inl (HTTPException 500 (''Failed to retrieve carbon intensity for '' @ z)), w3)"
  by (rule raise_500) (simp add: latest_steps [OF assms(1)] io_bind_def assms(2,3,4))

lemma history_parse_raises:
  assumes "fromisoformat d (replace_Z sd) = None \<or> fromisoformat d (replace_Z ed) = None"
  shows "get_carbon_intensity_history d z sd ed w
           = (Inl (HTTPException 500 (''Failed to retrieve history for '' @ z)), w)"
proof -
  from assms have "history_lookup d z sd ed w = (Inl ValueError, w)"
    by (auto simp: history_lookup_def io_raise_def split: option.split)
  thus ?thesis by (rule history_cases(1))
qed

lemma history_read_raises:
  assumes "fromisoformat d (replace_Z sd) = Some a" "fromisoformat d (replace_Z ed) = Some b"
      and "db_get_carbon_intensity_history d z a b w = (Inl e, w1)"
  shows "get_carbon_intensity_history d z sd ed w
           = (Inl (HTTPException 500 (''Failed to retrieve history for '' @ z)), w1)"
  using assms by (simp add: get_carbon_intensity_history_def history_lookup_def)

text \<open>
  C5, as the code has it. For every database, client and parser, and in each of the five
  endpoints that use them. First the steps: an exception raised by the read of the zones
  ends in the 500 "Failed to retrieve zones" at \<open>get_zones\<close> and in the 503 "Service
  unhealthy" at \<open>health_check\<close>; in \<open>get_carbon_intensity\<close> a datetime string that does
  not parse, an hour that is out of range, and an exception raised by the read of the
  store, by the client after a miss, or by the insert after a fetch, each end in the 500
  of that endpoint, with and without an instant; in \<open>get_carbon_intensity_history\<close> a
  date that does not parse and an exception raised by the read end in its 500; in
  \<open>get_average_carbon_intensity\<close> an exception raised by the database ends in its 500,
  and an absent average in the 404 "No data available". Then the outcomes: whatever
  happens, a failure of an endpoint is one of the exceptions just named, with its status
  and a fixed detail that names at most the zone and nothing of the exception caught; and
  a failure is never an \<open>APIResponse\<close>: every envelope the endpoints return has
  \<open>success = True\<close>.
\<close>

theorem failures_are_http_exceptions:
  "(db_get_zones d w = (Inl e, w1) \<longrightarrow>
      get_zones d w = (Inl (HTTPException 500 ''Failed to retrieve zones''), w1)
      \<and> health_check d w = (Inl (HTTPException 503 ''Service unhealthy''), w1))
   \<and> (s \<noteq> [] \<and> fromisoformat d (replace_Z s) = None \<longrightarrow>
        get_carbon_intensity d z (Some s) w
          = (Inl (HTTPException 500 (''Failed to retrieve carbon intensity for '' @ z)), w))
   \<and> (s \<noteq> [] \<and> fromisoformat d (replace_Z s) = Some T
        \<and> datetime_add T (timedelta_hours 1) = None \<longrightarrow>
        get_carbon_intensity d z (Some s) w
          = (Inl (HTTPException 500 (''Failed to retrieve carbon intensity for '' @ z)), w))
   \<and> (s \<noteq> [] \<and> fromisoformat d (replace_Z s) = Some T
        \<and> datetime_add T (timedelta_hours 1) = Some E
        \<and> db_get_carbon_intensity_history d z T E w = (Inl e, w1) \<longrightarrow>
        get_carbon_intensity d z (Some s) w
          = (Inl (HTTPException 500 (''Failed to retrieve carbon intensity for '' @ z)), w1))
   \<and> (s \<noteq> [] \<and> fromisoformat d (replace_Z s) = Some T
        \<and> datetime_add T (timedelta_hours 1) = Some E
        \<and> db_get_carbon_intensity_history d z T E w = (Inr [], w1)
        \<and> client_get_carbon_intensity d z (Some s) w1 = (Inl e, w2) \<longrightarrow>
        get_carbon_intensity d z (Some s) w
          = (Inl (HTTPException 500 (''Failed to retrieve carbon intensity for '' @ z)), w2))
   \<and> (s \<noteq> [] \<and> fromisoformat d (replace_Z s) = Some T
        \<and> datetime_add T (timedelta_hours 1) = Some E
        \<and> db_get_carbon_intensity_history d z T E w = (Inr [], w1)
        \<and> client_get_carbon_intensity d z (Some s) w1 = (Inr ob, w2)
        \<and> db_insert_carbon_intensity d ob w2 = (Inl e, w3) \<longrightarrow>
        get_carbon_intensity d z (Some s) w
          = (Inl (HTTPException 500 (''Failed to retrieve carbon intensity for '' @ z)), w3))
   \<and> ((dts = None \<or> dts = Some [])
        \<and> db_get_latest_carbon_intensity d z w = (Inl e, w1) \<longrightarrow>
        get_carbon_intensity d z dts w
          = (Inl (HTTPException 500 (''Failed to retrieve carbon intensity for '' @ z)), w1))
   \<and> ((dts = None \<or> dts = Some [])
        \<and> db_get_latest_carbon_intensity d z w = (Inr None, w1)
        \<and> client_get_carbon_intensity d z None w1 = (Inl e, w2) \<longrightarrow>
        get_carbon_intensity d z dts w
          = (Inl (HTTPException 500 (''Failed to retrieve carbon intensity for '' @ z)), w2))
   \<and> ((dts = None \<or> dts = Some [])
        \<and> db_get_latest_carbon_intensity d z w = (Inr None, w1)
        \<and> client_get_carbon_intensity d z None w1 = (Inr ob, w2)
        \<and> db_insert_carbon_intensity d ob w2 = (Inl e, w3) \<longrightarrow>
        get_carbon_intensity d z dts w
          = (Inl (HTTPException 500 (''Failed to retrieve carbon intensity for '' @ z)), w3))
   \<and> (fromisoformat d (replace_Z sd) = None \<or> fromisoformat d (replace_Z ed) = None \<longrightarrow>
        get_carbon_intensity_history d z sd ed w
          = (Inl (HTTPException 500 (''Failed to retrieve history for '' @ z)), w))
   \<and> (fromisoformat d (replace_Z sd) = Some a \<and> fromisoformat d (replace_Z ed) = Some b
        \<and> db_get_carbon_intensity_history d z a b w = (Inl e, w1) \<longrightarrow>
        get_carbon_intensity_history d z sd ed w
          = (Inl (HTTPException 500 (''Failed to retrieve history for '' @ z)), w1))
   \<and> (db_get_average_carbon_intensity d z h w = (Inl e, w1) \<longrightarrow>
        get_average_carbon_intensity d z h w
          = (Inl (HTTPException 500 (''Failed to calculate average for '' @ z)), w1))
   \<and> (db_get_average_carbon_intensity d z h w = (Inr None, w1) \<longrightarrow>
        get_average_carbon_intensity d z h w
          = (Inl (HTTPException 404 (''No data available for '' @ z)), w1))
   \<and> (fst (get_zones d w) = Inl x \<longrightarrow> x = HTTPException 500 ''Failed to retrieve zones'')
   \<and> (fst (health_check d w) = Inl x \<longrightarrow> x = HTTPException 503 ''Service unhealthy'')
   \<and> (fst (get_carbon_intensity d z dts w) = Inl x \<longrightarrow>
        x = HTTPException 500 (''Failed to retrieve carbon intensity for '' @ z))
   \<and> (fst (get_carbon_intensity_history d z sd ed w) = Inl x \<longrightarrow>
        x = HTTPException 500 (''Failed to retrieve history for '' @ z))
   \<and> (fst (get_average_carbon_intensity d z h w) = Inl x \<longrightarrow>
        x = HTTPException 500 (''Failed to calculate average for '' @ z)
        \<or> x = HTTPException 404 (''No data available for '' @ z))
   \<and> (fst (get_zones d w) = Inr r \<or> fst (health_check d w) = Inr r
        \<or> fst (get_carbon_intensity d z dts w) = Inr r
        \<or> fst (get_carbon_intensity_history d z sd ed w) = Inr r
        \<or> fst (get_average_carbon_intensity d z h w) = Inr r \<longrightarrow> success r = True)"
proof (intro conjI impI)
  show "get_zones d w = (Inl (HTTPException 500 ''Failed to retrieve zones''), w1)"
    if "db_get_zones d w = (Inl e, w1)"
    using that by (rule zones_cases(1))
  show "health_check d w = (Inl (HTTPException 503 ''Service unhealthy''), w1)"
    if "db_get_zones d w = (Inl e, w1)"
    using that by (rule health_cases(1))
  show "get_carbon_intensity d z (Some s) w
          = (Inl (HTTPException 500 (''Failed to retrieve carbon intensity for '' @ z)), w)"
    if "s \<noteq> [] \<and> fromisoformat d (replace_Z s) = None"
    using that instant_parse_raises [of s d z w] by simp
  show "get_carbon_intensity d z (Some s) w
          = (Inl (HTTPException 500 (''Failed to retrieve carbon intensity for '' @ z)), w)"
    if "s \<noteq> [] \<and> fromisoformat d (replace_Z s) = Some T
        \<and> datetime_add T (timedelta_hours 1) = None"
    using that instant_overflow [of s d T z w] by simp
  show "get_carbon_intensity d z (Some s) w
          = (Inl (HTTPException 500 (''Failed to retrieve carbon intensity for '' @ z)), w1)"
    if "s \<noteq> [] \<and> fromisoformat d (replace_Z s) = Some T
        \<and> datetime_add T (timedelta_hours 1) = Some E
        \<and> db_get_carbon_intensity_history d z T E w = (Inl e, w1)"
    using that instant_read_raises [of s d T E z w e w1] by simp
  show "get_carbon_intensity d z (Some s) w
          = (Inl (HTTPException 500 (''Failed to retrieve carbon intensity for '' @ z)), w2)"
    if "s \<noteq> [] \<and> fromisoformat d (replace_Z s) = Some T
        \<and> datetime_add T (timedelta_hours 1) = Some E
        \<and> db_get_carbon_intensity_history d z T E w = (Inr [], w1)
        \<and> client_get_carbon_intensity d z (Some s) w1 = (Inl e, w2)"
    using that instant_client_raises [of s d T E z w w1 e w2] by simp
  show "get_carbon_intensity d z (Some s) w
          = (Inl (HTTPException 500 (''Failed to retrieve carbon intensity for '' @ z)), w3)"
    if "s \<noteq> [] \<and> fromisoformat d (replace_Z s) = Some T
        \<and> datetime_add T (timedelta_hours 1) = Some E
        \<and> db_get_carbon_intensity_history d z T E w = (Inr [], w1)
        \<and> client_get_carbon_intensity d z (Some s) w1 = (Inr ob, w2)
        \<and> db_insert_carbon_intensity d ob w2 = (Inl e, w3)"
    using that instant_insert_raises [of s d T E z w w1 ob w2 e w3] by simp
  show "get_carbon_intensity d z dts w
          = (Inl (HTTPException 500 (''Failed to retrieve carbon intensity for '' @ z)), w1)"
    if "(dts = None \<or> dts = Some [])
        \<and> db_get_latest_carbon_intensity d z w = (Inl e, w1)"
    using that latest_read_raises [of dts d z w e w1] by simp
  show "get_carbon_intensity d z dts w
          = (Inl (HTTPException 500 (''Failed to retrieve carbon intensity for '' @ z)), w2)"
    if "(dts = None \<or> dts = Some [])
        \<and> db_get_latest_carbon_intensity d z w = (Inr None, w1)
        \<and> client_get_carbon_intensity d z None w1 = (Inl e, w2)"
    using that latest_client_raises [of dts d z w w1 e w2] by simp
  show "get_carbon_intensity d z dts w
          = (Inl (HTTPException 500 (''Failed to retrieve carbon intensity for '' @ z)), w3)"
    if "(dts = None \<or> dts = Some [])
        \<and> db_get_latest_carbon_intensity d z w = (Inr None, w1)
        \<and> client_get_carbon_intensity d z None w1 = (Inr ob, w2)
        \<and> db_insert_carbon_intensity d ob w2 = (Inl e, w3)"
    using that latest_insert_raises [of dts d z w w1 ob w2 e w3] by simp
  show "get_carbon_intensity_history d z sd ed w
          = (Inl (HTTPException 500 (''Failed to retrieve history for '' @ z)), w)"
    if "fromisoformat d (replace_Z sd) = None \<or> fromisoformat d (replace_Z ed) = None"
    using that by (rule history_parse_raises)
  show "get_carbon_intensity_history d z sd ed w
          = (Inl (HTTPException 500 (''Failed to retrieve history for '' @ z)), w1)"
    if "fromisoformat d (replace_Z sd) = Some a \<and> fromisoformat d (replace_Z ed) = Some b
        \<and> db_get_carbon_intensity_history d z a b w = (Inl e, w1)"
    using that history_read_raises [of d sd a ed b z w e w1] by simp
  show "get_average_carbon_intensity d z h w
          = (Inl (HTTPException 500 (''Failed to calculate average for '' @ z)), w1)"
    if "db_get_average_carbon_intensity d z h w = (Inl e, w1)"
    using that by (rule average_cases(1))
  show "get_average_carbon_intensity d z h w
          = (Inl (HTTPException 404 (''No data available for '' @ z)), w1)"
    if "db_get_average_carbon_intensity d z h w = (Inr None, w1)"
    using that by (rule average_cases(2))
  show "x = HTTPException 500 ''Failed to retrieve zones''" if "fst (get_zones d w) = Inl x"
    using that zones_outcomes [of d w] by auto
  show "x = HTTPException 503 ''Service unhealthy''" if "fst (health_check d w) = Inl x"
    using that health_outcomes [of d w] by auto
  show "x = HTTPException 500 (''Failed to retrieve carbon intensity for '' @ z)"
    if "fst (get_carbon_intensity d z dts w) = Inl x"
    using that intensity_outcomes [of d z dts w] by auto
  show "x = HTTPException 500 (''Failed to retrieve history for '' @ z)"
    if "fst (get_carbon_intensity_history d z sd ed w) = Inl x"
    using that history_outcomes [of d z sd ed w] by auto
  show "x = HTTPException 500 (''Failed to calculate average for '' @ z)
        \<or> x = HTTPException 404 (''No data available for '' @ z)"
    if "fst (get_average_carbon_intensity d z h w) = Inl x"
    using that average_outcomes [of d z h w] by auto
  show "success r = True"
    if "fst (get_zones d w) = Inr r \<or> fst (health_check d w) = Inr r
        \<or> fst (get_carbon_intensity d z dts w) = Inr r
        \<or> fst (get_carbon_intensity_history d z sd ed w) = Inr r
        \<or> fst (get_average_carbon_intensity d z h w) = Inr r"
    using that zones_outcomes [of d w] health_outcomes [of d w]
      intensity_outcomes [of d z dts w] history_outcomes [of d z sd ed w]
      average_outcomes [of d z h w]
    by (auto simp: zones_response_def health_response_def intensity_response_def
        history_response_def average_response_def)
qed

text \<open>
  A database that is down, at the health check, the zones, the latest observation and the
  average; a provider that is down after a miss; and an average over the empty store.
\<close>

theorem failures_are_http_exceptions_witness:
  "health_check storage_down world0 = (Inl (HTTPException 503 ''Service unhealthy''), world0)
   \<and> get_zones storage_down world0
       = (Inl (HTTPException 500 ''Failed to retrieve zones''), world0)
   \<and> get_carbon_intensity storage_down ''US'' None world0
       = (Inl (HTTPException 500 ''Failed to retrieve carbon intensity for US''), world0)
   \<and> get_average_carbon_intensity storage_down ''US'' 24 world0
       = (Inl (HTTPException 500 ''Failed to calculate average for US''), world0)
   \<and> get_carbon_intensity (live True iso_table utc_table provider_down) ''US'' None world0
       = (Inl (HTTPException 500 ''Failed to retrieve carbon intensity for US''),
          world0\<lparr> remote_calls := [(''US'', None)] \<rparr>)
   \<and> get_average_carbon_intensity (live True iso_table utc_table provider_down)
         ''US'' 24 world0
       = (Inl (HTTPException 404 ''No data available for US''), world0)"
proof -
  note sd = failures_are_http_exceptions [where d = storage_down and z = "''US''"
      and w = world0 and e = StorageFailure and ?w1.0 = world0 and dts = None and h = 24]
  note pd = failures_are_http_exceptions [where
      d = "live True iso_table utc_table provider_down" and z = "''US''"
      and w = world0 and e = RemoteUnavailable and ?w1.0 = world0 and dts = None and h = 24
      and ?w2.0 = "world0\<lparr> remote_calls := [(''US'', None)] \<rparr>"]
  have h1: "db_get_zones storage_down world0 = (Inl StorageFailure, world0)"
    by (simp add: storage_down_def io_raise_def)
  from sd [THEN conjunct1] h1
  have a: "get_zones storage_down world0
       = (Inl (HTTPException 500 ''Failed to retrieve zones''), world0)
      \<and> health_check storage_down world0
       = (Inl (HTTPException 503 ''Service unhealthy''), world0)"
    by simp
  have h2: "(None = None \<or> None = Some [])
      \<and> db_get_latest_carbon_intensity storage_down ''US'' world0
          = (Inl StorageFailure, world0)"
    by (simp add: storage_down_def io_raise_def)
  from sd [THEN conjunct2, THEN conjunct2, THEN conjunct2, THEN conjunct2, THEN conjunct2,
      THEN conjunct2, THEN conjunct1] h2
  have b: "get_carbon_intensity storage_down ''US'' None world0
       = (Inl (HTTPException 500 ''Failed to retrieve carbon intensity for US''), world0)"
    by simp
  have h3: "db_get_average_carbon_intensity storage_down ''US'' 24 world0
          = (Inl StorageFailure, world0)"
    by (simp add: storage_down_def io_raise_def)
  from sd [THEN conjunct2, THEN conjunct2, THEN conjunct2, THEN conjunct2, THEN conjunct2,
      THEN conjunct2, THEN conjunct2, THEN conjunct2, THEN conjunct2, THEN conjunct2,
      THEN conjunct2, THEN conjunct1] h3
  have c: "get_average_carbon_intensity storage_down ''US'' 24 world0
       = (Inl (HTTPException 500 ''Failed to calculate average for US''), world0)"
    by simp
  have h4: "(None = None \<or> None = Some [])
      \<and> db_get_latest_carbon_intensity (live True iso_table utc_table provider_down)
               ''US'' world0 = (Inr None, world0)
      \<and> client_get_carbon_intensity (live True iso_table utc_table provider_down)
               ''US'' None world0
           = (Inl RemoteUnavailable, world0\<lparr> remote_calls := [(''US'', None)] \<rparr>)"
    by (simp add: live_sel world0_latest client_getIntensity_def provider_down_def)
       (simp add: world0_def)
  from pd [THEN conjunct2, THEN conjunct2, THEN conjunct2, THEN conjunct2, THEN conjunct2,
      THEN conjunct2, THEN conjunct2, THEN conjunct1] h4
  have d: "get_carbon_intensity (live True iso_table utc_table provider_down) ''US'' None
       world0
       = (Inl (HTTPException 500 ''Failed to retrieve carbon intensity for US''),
          world0\<lparr> remote_calls := [(''US'', None)] \<rparr>)"
    by simp
  have h5: "db_get_average_carbon_intensity (live True iso_table utc_table provider_down)
            ''US'' 24 world0 = (Inr None, world0)"
    by (simp add: live_sel getAverage_def average_window_def world0_def empty_store_def)
  from pd [THEN conjunct2, THEN conjunct2, THEN conjunct2, THEN conjunct2, THEN conjunct2,
      THEN conjunct2, THEN conjunct2, THEN conjunct2, THEN conjunct2, THEN conjunct2,
      THEN conjunct2, THEN conjunct2, THEN conjunct1] h5
  have e: "get_average_carbon_intensity (live True iso_table utc_table provider_down)
         ''US'' 24 world0
       = (Inl (HTTPException 404 ''No data available for US''), world0)"
    by simp
  from a b c d e show ?thesis by simp
qed

text \<open>
  C5 as stated fails in two places. With the empty store and the provider down, the
  outcome of \<open>get_carbon_intensity\<close> for the zone US is the raised \<open>HTTPException\<close>
  (status code and detail only), not an envelope with \<open>success = False\<close> and a message.
  And with the database down, the health check surfaces the failure of the store as the
  503, which is neither the 500 nor the 404.
\<close>

theorem failure_envelope_counterexample:
  "fst (get_carbon_intensity (live True iso_table utc_table provider_down) ''US'' None world0)
     = Inl (HTTPException 500 ''Failed to retrieve carbon intensity for US'')
   \<and> \<not> (\<exists>r. fst (get_carbon_intensity (live True iso_table utc_table provider_down)
                  ''US'' None world0) = Inr r
              \<and> success r = False \<and> message r \<noteq> None)
   \<and> db_get_zones storage_down world0 = (Inl StorageFailure, world0)
   \<and> fst (health_check storage_down world0) = Inl (HTTPException 503 ''Service unhealthy'')
   \<and> status_code (HTTPException 503 ''Service unhealthy'') \<noteq> 500
   \<and> status_code (HTTPException 503 ''Service unhealthy'') \<noteq> 404"
proof -
  have "carbon_intensity_lookup (live True iso_table utc_table provider_down) ''US'' None world0
      = (Inl RemoteUnavailable, world0\<lparr> remote_calls := remote_calls world0 @ [(''US'', None)] \<rparr>)"
    by (simp add: lookup_latest_miss world0_latest client_getIntensity_def provider_down_def)
  hence a: "fst (get_carbon_intensity (live True iso_table utc_table provider_down) ''US'' None
      world0) = Inl (HTTPException 500 ''Failed to retrieve carbon intensity for US'')"
    by (simp add: get_carbon_intensity_cases(2))
  have z: "db_get_zones storage_down world0 = (Inl StorageFailure, world0)"
    by (simp add: storage_down_def io_raise_def)
  hence b: "fst (health_check storage_down world0)
      = Inl (HTTPException 503 ''Service unhealthy'')"
    by (simp add: health_cases(1))
  from a z b show ?thesis by simp
qed

subsection \<open>Datetime strings that do not parse\<close>

lemma replace_Z_no_Z: "CHR ''Z'' \<notin> set s \<Longrightarrow> replace_Z s = s"
  by (induction s) (auto simp: replace_Z_def)

lemma replace_Z_append: "replace_Z (s @ t) = replace_Z s @ replace_Z t"
  by (simp add: replace_Z_def)

lemma unparsable_intensity:
  assumes "s \<noteq> []" "fromisoformat d (replace_Z s) = None"
  shows "get_carbon_intensity d z (Some s) w
           = (Inl (HTTPException 500 (''Failed to retrieve carbon intensity for '' @ z)), w)"
proof -
  from assms(1) obtain c cs where s: "s = c # cs" by (cases s) auto
  with assms(2) have "carbon_intensity_lookup d z (Some s) w = (Inl ValueError, w)"
    by (simp add: carbon_intensity_lookup_def io_raise_def)
  thus ?thesis by (rule get_carbon_intensity_cases(2))
qed

lemma unparsable_history:
  assumes "fromisoformat d (replace_Z sd) = None \<or> fromisoformat d (replace_Z ed) = None"
  shows "get_carbon_intensity_history d z sd ed w
           = (Inl (HTTPException 500 (''Failed to retrieve history for '' @ z)), w)"
proof -
  from assms have "history_lookup d z sd ed w = (Inl ValueError, w)"
    by (auto simp: history_lookup_def io_raise_def split: option.split)
  thus ?thesis by (simp add: get_carbon_intensity_history_def)
qed

text \<open>
  C10, as the code has it. A non-empty \<open>datetime_str\<close> that \<open>fromisoformat\<close> rejects,
  after every "Z" has been replaced by "+00:00", makes \<open>get_carbon_intensity\<close> raise the
  500 of its handler, before any use of the database or of the client; a \<open>start_date\<close>
  or \<open>end_date\<close> so rejected makes \<open>get_carbon_intensity_history\<close> raise its 500, also
  when the string is empty. No other status and no other detail is produced. On a string
  whose only "Z" is the last character, the replacement replaces that trailing "Z". An
  empty \<open>datetime_str\<close> is never parsed: the request is handled as the request without
  one.
\<close>

theorem unparsable_datetime_is_500:
  "(s \<noteq> [] \<and> fromisoformat d (replace_Z s) = None \<longrightarrow>
      get_carbon_intensity d z (Some s) w
        = (Inl (HTTPException 500 (''Failed to retrieve carbon intensity for '' @ z)), w))
   \<and> (fromisoformat d (replace_Z sd) = None \<or> fromisoformat d (replace_Z ed) = None \<longrightarrow>
        get_carbon_intensity_history d z sd ed w
          = (Inl (HTTPException 500 (''Failed to retrieve history for '' @ z)), w))
   \<and> (CHR ''Z'' \<notin> set t \<longrightarrow> replace_Z (t @ ''Z'') = t @ ''+00:00'')
   \<and> get_carbon_intensity d z (Some []) w = get_carbon_intensity d z None w"
proof (intro conjI impI)
  show "get_carbon_intensity d z (Some []) w = get_carbon_intensity d z None w"
    by (simp add: get_carbon_intensity_def carbon_intensity_lookup_def)
  show "get_carbon_intensity d z (Some s) w
        = (Inl (HTTPException 500 (''Failed to retrieve carbon intensity for '' @ z)), w)"
    if "s \<noteq> [] \<and> fromisoformat d (replace_Z s) = None"
    using that by (simp add: unparsable_intensity)
  show "get_carbon_intensity_history d z sd ed w
          = (Inl (HTTPException 500 (''Failed to retrieve history for '' @ z)), w)"
    if "fromisoformat d (replace_Z sd) = None \<or> fromisoformat d (replace_Z ed) = None"
    using that by (rule unparsable_history)
  show "replace_Z (t @ ''Z'') = t @ ''+00:00''" if "CHR ''Z'' \<notin> set t"
    using that by (simp add: replace_Z_append replace_Z_no_Z) (simp add: replace_Z_def)
qed

text \<open>The string "invalid-datetime" at both endpoints.\<close>

theorem unparsable_datetime_is_500_witness:
  "get_carbon_intensity (live True iso_table utc_table provider_partial) ''US''
       (Some ''invalid-datetime'') world_us
     = (Inl (HTTPException 500 ''Failed to retrieve carbon intensity for US''), world_us)
   \<and> get_carbon_intensity_history (live True iso_table utc_table provider_partial) ''US''
       ''invalid-datetime'' ''2024-01-15T10:30:00Z'' world_us
     = (Inl (HTTPException 500 ''Failed to retrieve history for US''), world_us)
   \<and> replace_Z ''2024-01-15T10:30:00Z'' = ''2024-01-15T10:30:00+00:00''"
proof -
  have r: "replace_Z ''invalid-datetime'' = ''invalid-datetime''"
    by (simp add: replace_Z_def)
  have h1: "''invalid-datetime'' \<noteq> []
      \<and> fromisoformat (live True iso_table utc_table provider_partial)
           (replace_Z ''invalid-datetime'') = None"
    by (simp add: r live_sel iso_table_def)
  from unparsable_datetime_is_500 [where s = "''invalid-datetime''"
      and d = "live True iso_table utc_table provider_partial" and z = "''US''"
      and w = world_us] h1
  have a: "get_carbon_intensity (live True iso_table utc_table provider_partial) ''US''
       (Some ''invalid-datetime'') world_us
     = (Inl (HTTPException 500 ''Failed to retrieve carbon intensity for US''), world_us)"
    by simp
  have h2: "fromisoformat (live True iso_table utc_table provider_partial)
           (replace_Z ''invalid-datetime'') = None
      \<or> fromisoformat (live True iso_table utc_table provider_partial)
           (replace_Z ''2024-01-15T10:30:00Z'') = None"
    by (simp add: r live_sel iso_table_def)
  from unparsable_datetime_is_500 [where sd = "''invalid-datetime''"
      and ed = "''2024-01-15T10:30:00Z''"
      and d = "live True iso_table utc_table provider_partial" and z = "''US''"
      and w = world_us] h2
  have b: "get_carbon_intensity_history (live True iso_table utc_table provider_partial) ''US''
       ''invalid-datetime'' ''2024-01-15T10:30:00Z'' world_us
     = (Inl (HTTPException 500 ''Failed to retrieve history for US''), world_us)"
    by simp
  have h3: "CHR ''Z'' \<notin> set ''2024-01-15T10:30:00''" by simp
  from unparsable_datetime_is_500 [where t = "''2024-01-15T10:30:00''",
      THEN conjunct2, THEN conjunct2, THEN conjunct1] h3
  have c: "replace_Z ''2024-01-15T10:30:00Z'' = ''2024-01-15T10:30:00+00:00''" by simp
  from a b c show ?thesis by simp
qed

text \<open>
  C10 as stated fails at the empty string: \<open>fromisoformat\<close> rejects it (in Python,
  \<open>datetime.fromisoformat("")\<close> raises \<open>ValueError\<close>), but \<open>if datetime_str:\<close> is
  false for it, the string is never parsed, and the request is answered from the latest
  stored observation.
\<close>

theorem empty_datetime_counterexample:
  "fromisoformat (live True iso_table utc_table provider_partial) (replace_Z []) = None
   \<and> get_carbon_intensity (live True iso_table utc_table provider_partial) ''US''
        (Some []) world_us
      = (Inr (intensity_response ''US'' (observation ''US'' t_1030 250.5) (now world_us)),
         world_us)"
proof -
  have "fromisoformat (live True iso_table utc_table provider_partial) (replace_Z []) = None"
    by (simp add: live_sel replace_Z_def iso_table_def)
  moreover have "carbon_intensity_lookup (live True iso_table utc_table provider_partial) ''US''
        (Some []) world_us = (Inr (observation ''US'' t_1030 250.5), world_us)"
    by (simp add: lookup_latest_hit world_us_latest)
  hence "get_carbon_intensity (live True iso_table utc_table provider_partial) ''US''
        (Some []) world_us
      = (Inr (intensity_response ''US'' (observation ''US'' t_1030 250.5) (now world_us)),
         world_us)"
    by (simp add: get_carbon_intensity_cases(1) live_sel(7))
  ultimately show ?thesis by simp
qed

end
